theory Spec2Isabelle
  imports Complex_Main
begin

section \<open>Data model of the room video player\<close>

text \<open>
  The playback synchronisation logic lives in the \<open>VideoPlayer\<close> component
  (\<open>src/components/room/VideoPlayer.tsx\<close>; a near-duplicate sits in
  \<open>src/components/room/UserPlaylists.tsx\<close>). The two copies differ in the seek threshold
  (3 s against 2 s) and in the period of the sync timer (15000 ms against 5000 ms);
  \<open>config\<close> names the copy.

  \<open>Date.now()\<close> is an integer number of milliseconds. Player times are JavaScript
  numbers: a time is the real value of a finite double, and the two places where the
  source computes with times are modelled as doubles compute (\<open>driftExceeds\<close>,
  \<open>SeekToSum\<close>). A \<open>videoId\<close> that is \<open>null\<close> in the stored JSON is \<open>None\<close>; JavaScript
  truthiness of a video id (\<open>if (newState.videoId)\<close>) is \<open>truthy\<close>: neither \<open>null\<close> nor
  the empty string.
\<close>

record VideoState =
  videoId :: "string option"
  isPlaying :: bool
  currentTime :: real
  timestamp :: int

text \<open>\<open>Partial<VideoState>\<close> as the call sites build it: a field is \<open>None\<close> when the key
  is absent. The \<open>timestamp\<close> key is never passed and is overwritten after the spread.\<close>

record VideoStateUpdate =
  upd_videoId :: "string option"
  upd_isPlaying :: "bool option"
  upd_currentTime :: "real option"

record PlaylistItem =
  item_id :: string
  video_id :: string
  title :: string
  position :: int

datatype PlayerState = UNSTARTED | ENDED | PLAYING | PAUSED | BUFFERING | CUED

text \<open>
  Commands sent to the player. \<open>SeekToSum a b\<close> is \<open>seekTo(a + b, true)\<close>: the sum is the
  runtime's double addition and is not evaluated here.
\<close>

datatype player_cmd =
  PlayVideo | PauseVideo | SeekTo real bool | SeekToSum real real bool
  | SetVolume nat | Mute | UnMute

datatype variant = Default | Destructive

datatype toast = Toast string string variant

datatype console_entry =
  ConsoleLog string "string option" | ConsoleError string string

datatype config = VideoPlayer_config | UserPlaylists_config

fun seekThreshold :: "config \<Rightarrow> real" where
  "seekThreshold VideoPlayer_config = 3"
| "seekThreshold UserPlaylists_config = 2"

fun syncIntervalMs :: "config \<Rightarrow> nat" where
  "syncIntervalMs VideoPlayer_config = 15000"
| "syncIntervalMs UserPlaylists_config = 5000"

text \<open>
  \<open>Math.abs(playerTime - newState.currentTime) > 3\<close> (or \<open>> 2\<close>) on doubles. The
  difference is rounded to the nearest double, ties to even, before it is compared. The
  doubles next above 2 and 3 are \<open>2 + 2\<^sup>-\<^sup>5\<^sup>1\<close> and \<open>3 + 2\<^sup>-\<^sup>5\<^sup>1\<close>, and 2 and 3 have an even last
  mantissa bit, so the rounded difference exceeds the threshold exactly when the exact
  difference exceeds it by more than \<open>2\<^sup>-\<^sup>5\<^sup>2\<close>.
\<close>

definition driftExceeds :: "config \<Rightarrow> real \<Rightarrow> real \<Rightarrow> bool" where
  "driftExceeds cfg playerTime t = (\<bar>playerTime - t\<bar> > seekThreshold cfg + 1 / 2 ^ 52)"

text \<open>
  What a closure reads of the render it was made in: the \<open>useState\<close> cells \<open>videoState\<close>,
  \<open>localIsPlaying\<close> and \<open>playlist\<close>. The subscription callbacks and \<open>fetchInitialState\<close> are
  started by the effect on \<open>[roomId]\<close> (l.46-90) and so belong to the first render, in which
  the cells hold their initial values; the interval callback belongs to the render in
  which the player reported \<open>PLAYING\<close>. The \<open>roomId\<close> prop is taken as fixed.
\<close>

record render =
  r_videoState :: "VideoState option"
  r_localIsPlaying :: bool
  r_playlist :: "PlaylistItem list"

definition mount_render :: render where
  "mount_render = \<lparr>r_videoState = None, r_localIsPlaying = False, r_playlist = []\<rparr>"

text \<open>
  The component state: the \<open>useState\<close> cells and \<open>useRef\<close> cells under their source names.
  \<open>playerRef\<close> is \<open>None\<close> while \<open>playerRef.current\<close> is null and otherwise holds what
  \<open>getCurrentTime()\<close> returns; \<open>syncIntervalRef\<close> holds the period of the running
  interval timer and \<open>syncIntervalClosure\<close> the render its callback was made in;
  \<open>readyTimeouts\<close> holds the \<open>videoState\<close> captured by each pending \<open>setTimeout\<close> of
  \<open>onPlayerReady\<close>. The last four fields record the effects on the outside world in the
  order they happen: commands sent to the player, toasts shown to the user, console
  lines, and the \<open>video_state\<close> values written to the \<open>video_rooms\<close> table.

  Refs are read and written in place. State cells are read from the render a handler
  belongs to and written to the component; within one handler a \<open>setState\<close> call does not
  change what the handler reads afterwards. Handlers passed as props (\<open>onReady\<close>,
  \<open>onStateChange\<close>, \<open>onClick\<close>) belong to the current render.
\<close>

record engine =
  roomId :: string
  videoState :: "VideoState option"
  localIsPlaying :: bool
  isMuted :: bool
  isLoading :: bool
  isBuffering :: bool
  syncIntervalRef :: "nat option"
  syncIntervalClosure :: render
  readyTimeouts :: "VideoState list"
  lastSyncTimeRef :: int
  playlist :: "PlaylistItem list"
  currentVideoPosition :: "nat option"
  playerRef :: "real option"
  commands :: "player_cmd list"
  toasts :: "toast list"
  console :: "console_entry list"
  writes :: "VideoState list"

definition init :: "string \<Rightarrow> engine" where
  "init rid = \<lparr>roomId = rid, videoState = None, localIsPlaying = False, isMuted = False,
     isLoading = True, isBuffering = False, syncIntervalRef = None,
     syncIntervalClosure = mount_render, readyTimeouts = [], lastSyncTimeRef = 0,
     playlist = [], currentVideoPosition = None, playerRef = None,
     commands = [], toasts = [], console = [], writes = []\<rparr>"

text \<open>The current render of a component state.\<close>

definition render_of :: "engine \<Rightarrow> render" where
  "render_of s =
     \<lparr>r_videoState = videoState s, r_localIsPlaying = localIsPlaying s,
      r_playlist = playlist s\<rparr>"

section \<open>Operations\<close>

definition truthy :: "string option \<Rightarrow> bool" where
  "truthy v = (case v of None \<Rightarrow> False | Some x \<Rightarrow> x \<noteq> [])"

text \<open>\<open>playlist.some(item => item.video_id === v)\<close>\<close>

definition isInPlaylist :: "PlaylistItem list \<Rightarrow> string option \<Rightarrow> bool" where
  "isInPlaylist pl v = list_ex (\<lambda>item. Some (video_id item) = v) pl"

text \<open>\<open>Array.prototype.findIndex\<close>, with \<open>None\<close> for \<open>-1\<close>.\<close>

fun findIndex :: "('a \<Rightarrow> bool) \<Rightarrow> 'a list \<Rightarrow> nat option" where
  "findIndex P [] = None"
| "findIndex P (x # xs) = (if P x then Some 0 else map_option Suc (findIndex P xs))"

text \<open>\<open>updateCurrentVideoPosition\<close> as the effect on \<open>[videoState?.videoId, playlist]\<close> runs
  it, in the render that follows a change.\<close>

definition updateCurrentVideoPosition :: "engine \<Rightarrow> engine" where
  "updateCurrentVideoPosition s =
     (case videoState s of
        None \<Rightarrow> s\<lparr>currentVideoPosition := None\<rparr>
      | Some st \<Rightarrow>
          if \<not> truthy (videoId st) \<or> length (playlist s) = 0
          then s\<lparr>currentVideoPosition := None\<rparr>
          else s\<lparr>currentVideoPosition :=
                   findIndex (\<lambda>item. Some (video_id item) = videoId st) (playlist s)\<rparr>)"

definition cant_play_toast :: toast where
  "cant_play_toast =
     Toast ''Can't play video'' ''This video is not in the room playlist'' Destructive"

text \<open>\<open>{...videoState, ...updateData, timestamp: Date.now()}\<close>\<close>

definition merge_state :: "VideoState \<Rightarrow> VideoStateUpdate \<Rightarrow> int \<Rightarrow> VideoState" where
  "merge_state st u now =
     st\<lparr>videoId := (case upd_videoId u of None \<Rightarrow> videoId st | Some v \<Rightarrow> Some v),
        isPlaying := (case upd_isPlaying u of None \<Rightarrow> isPlaying st | Some b \<Rightarrow> b),
        currentTime := (case upd_currentTime u of None \<Rightarrow> currentTime st | Some t \<Rightarrow> t),
        timestamp := now\<rparr>"

text \<open>
  \<open>updateRoomVideoState\<close> as the closure of render \<open>r\<close>, up to the point where the write
  to \<open>video_rooms\<close> is sent: \<open>videoState\<close> and \<open>playlist\<close> are those of \<open>r\<close>, while
  \<open>lastSyncTimeRef\<close>, \<open>setVideoState\<close> and the write act on the component. Both
  \<open>Date.now()\<close> reads of the source are the one argument \<open>now\<close>. The outcome of the write
  arrives later, in \<open>updateRoomVideoState_then\<close>.
\<close>

definition updateRoomVideoState_in ::
  "render \<Rightarrow> int \<Rightarrow> VideoStateUpdate \<Rightarrow> engine \<Rightarrow> engine" where
  "updateRoomVideoState_in r now updateData s =
     (if roomId s = [] then s
      else case r_videoState r of
        None \<Rightarrow> s
      | Some st \<Rightarrow>
          if truthy (upd_videoId updateData) \<and> length (r_playlist r) > 0
                  \<and> \<not> isInPlaylist (r_playlist r) (upd_videoId updateData)
          then s\<lparr>console := console s @
                    [ConsoleLog ''Attempted to play video not in playlist:''
                       (upd_videoId updateData)],
                 toasts := toasts s @ [cant_play_toast]\<rparr>
          else s\<lparr>lastSyncTimeRef := now,
                 videoState := Some (merge_state st updateData now),
                 writes := writes s @ [merge_state st updateData now]\<rparr>)"

text \<open>\<open>updateRoomVideoState\<close> called from a handler of the current render.\<close>

definition updateRoomVideoState :: "int \<Rightarrow> VideoStateUpdate \<Rightarrow> engine \<Rightarrow> engine" where
  "updateRoomVideoState now updateData s = updateRoomVideoState_in (render_of s) now updateData s"

text \<open>The \<open>.then(({ error }) => ...)\<close> callback of the write.\<close>

definition updateRoomVideoState_then :: "string option \<Rightarrow> engine \<Rightarrow> engine" where
  "updateRoomVideoState_then error s =
     (case error of
        None \<Rightarrow> s
      | Some e \<Rightarrow> s\<lparr>console := console s @ [ConsoleError ''Error updating video state:'' e]\<rparr>)"

definition playVideoFromPlaylist :: "int \<Rightarrow> string \<Rightarrow> engine \<Rightarrow> engine" where
  "playVideoFromPlaylist now v s =
     (if \<not> isInPlaylist (playlist s) (Some v) \<and> length (playlist s) > 0
      then s\<lparr>console := console s @
                [ConsoleLog ''Attempted to play video not in playlist:'' (Some v)],
             toasts := toasts s @ [cant_play_toast]\<rparr>
      else updateRoomVideoState now
             \<lparr>upd_videoId = Some v, upd_isPlaying = Some True, upd_currentTime = Some 0\<rparr> s)"

text \<open>
  \<open>handleVideoStateChange\<close> as the closure of render \<open>r\<close>: \<open>playlist\<close>, \<open>videoState\<close> and
  \<open>localIsPlaying\<close> are those of \<open>r\<close>, the two refs are read in place. The subscription
  calls it as the closure of the first render (see \<open>handle\<close>).
\<close>

definition handleVideoStateChange ::
  "render \<Rightarrow> config \<Rightarrow> int \<Rightarrow> VideoState \<Rightarrow> engine \<Rightarrow> engine" where
  "handleVideoStateChange r cfg now newState s =
     (if now - lastSyncTimeRef s < 1000 then s
      else if truthy (videoId newState)
              \<and> \<not> isInPlaylist (r_playlist r) (videoId newState) \<and> length (r_playlist r) > 0
      then s\<lparr>console := console s @
                [ConsoleLog ''Ignoring state change for video not in playlist:''
                   (videoId newState)]\<rparr>
      else
        (case playerRef s of
           None \<Rightarrow> s\<lparr>videoState := Some newState\<rparr>
         | Some playerTime \<Rightarrow>
             if Some (videoId newState) \<noteq> map_option videoId (r_videoState r)
             then s\<lparr>videoState := Some newState, localIsPlaying := isPlaying newState\<rparr>
             else
               s\<lparr>videoState := Some newState,
                 localIsPlaying := (if isPlaying newState \<noteq> r_localIsPlaying r
                                    then isPlaying newState else localIsPlaying s),
                 commands := commands s
                   @ (if isPlaying newState \<noteq> r_localIsPlaying r
                      then [if isPlaying newState then PlayVideo else PauseVideo] else [])
                   @ (if driftExceeds cfg playerTime (currentTime newState)
                      then [SeekTo (currentTime newState) True] else [])\<rparr>))"

text \<open>
  \<open>onPlayerReady\<close> stores the player and sets the volume. When the video state passes its
  test, it schedules a seek with \<open>setTimeout(..., 500)\<close>, whose callback keeps the
  \<open>videoState\<close> of this render; \<open>onPlayerReady_timeout\<close> is that callback for the oldest
  pending timeout.
\<close>

definition onPlayerReady :: "real \<Rightarrow> engine \<Rightarrow> engine" where
  "onPlayerReady target s =
     s\<lparr>playerRef := Some target, isLoading := False,
       commands := commands s @ [SetVolume 70] @ (if isMuted s then [Mute] else []),
       readyTimeouts := readyTimeouts s @
         (case videoState s of
            None \<Rightarrow> []
          | Some st \<Rightarrow>
              if isInPlaylist (playlist s) (videoId st) \<or> length (playlist s) = 0
              then [st] else [])\<rparr>"

definition onPlayerReady_timeout :: "engine \<Rightarrow> engine" where
  "onPlayerReady_timeout s =
     (case readyTimeouts s of
        [] \<Rightarrow> s
      | st # rest \<Rightarrow>
          (case playerRef s of
             None \<Rightarrow> s\<lparr>readyTimeouts := rest\<rparr>
           | Some _ \<Rightarrow>
               s\<lparr>readyTimeouts := rest,
                 commands := commands s
                   @ [if isPlaying st then SeekToSum (currentTime st) 1 True
                      else SeekTo (currentTime st) True]
                   @ (if isPlaying st then [PlayVideo] else [])\<rparr>))"

text \<open>\<open>playerRef.current?.getCurrentTime() || 0\<close>\<close>

definition playerTimeOr0 :: "engine \<Rightarrow> real" where
  "playerTimeOr0 s = (case playerRef s of None \<Rightarrow> 0 | Some t \<Rightarrow> t)"

text \<open>\<open>videoState?.isPlaying\<close> as a condition.\<close>

definition roomIsPlaying :: "engine \<Rightarrow> bool" where
  "roomIsPlaying s = (case videoState s of None \<Rightarrow> False | Some st \<Rightarrow> isPlaying st)"

text \<open>
  The callback of the interval timer set up in the \<open>PLAYING\<close> case, as the closure of
  render \<open>r\<close>: it tests and spreads the \<open>videoState\<close> of \<open>r\<close>.
\<close>

definition syncIntervalTick :: "render \<Rightarrow> int \<Rightarrow> engine \<Rightarrow> engine" where
  "syncIntervalTick r now s =
     (case playerRef s of
        None \<Rightarrow> s
      | Some t \<Rightarrow>
          if r_videoState r \<noteq> None
          then updateRoomVideoState_in r now
                 \<lparr>upd_videoId = None, upd_isPlaying = None, upd_currentTime = Some t\<rparr> s
          else s)"

text \<open>
  The entry \<open>playNextVideo\<close> hands to \<open>playVideoFromPlaylist\<close>: \<open>playlist[0]\<close> when no
  position is known, \<open>playlist[(currentVideoPosition + 1) % playlist.length]\<close> otherwise,
  nothing when the playlist is empty.
\<close>

definition nextVideo :: "PlaylistItem list \<Rightarrow> nat option \<Rightarrow> PlaylistItem option" where
  "nextVideo pl pos =
     (if length pl = 0 then None
      else case pos of
             None \<Rightarrow> Some (pl ! 0)
           | Some i \<Rightarrow> Some (pl ! ((i + 1) mod length pl)))"

text \<open>
  \<open>playNextVideo\<close>. The index \<open>(currentVideoPosition + 1) % playlist.length\<close> is always
  inside the playlist, so the source's test \<open>if (nextVideo)\<close> always succeeds.
\<close>

definition playNextVideo :: "int \<Rightarrow> engine \<Rightarrow> engine" where
  "playNextVideo now s =
     (if length (playlist s) = 0 \<or> currentVideoPosition s = None
      then (if length (playlist s) > 0
            then (let s' = playVideoFromPlaylist now (video_id (playlist s ! 0)) s
                  in s'\<lparr>toasts := toasts s' @
                          [Toast ''Playlist restarted''
                             ''Playing from the beginning of the playlist'' Default]\<rparr>)
            else s)
      else (case currentVideoPosition s of
              None \<Rightarrow> s
            | Some i \<Rightarrow>
                (let nextIndex = (i + 1) mod length (playlist s);
                     nxt = playlist s ! nextIndex;
                     s' = playVideoFromPlaylist now (video_id nxt) s
                 in s'\<lparr>toasts := toasts s' @ [Toast ''Playing next'' (title nxt) Default]\<rparr>)))"

text \<open>
  \<open>onPlayerStateChange\<close>. The interval callback made in the \<open>PLAYING\<close> case closes over
  the render the handler runs in, before its own \<open>updateRoomVideoState\<close> takes effect.
  The cells the handler sets first (\<open>localIsPlaying\<close>, \<open>isBuffering\<close>) are not read by
  \<open>updateRoomVideoState\<close> or \<open>playNextVideo\<close>.
\<close>

definition onPlayerStateChange :: "config \<Rightarrow> int \<Rightarrow> PlayerState \<Rightarrow> engine \<Rightarrow> engine" where
  "onPlayerStateChange cfg now ev s =
     (case ev of
        PLAYING \<Rightarrow>
          (let s1 = s\<lparr>localIsPlaying := True, isBuffering := False\<rparr>;
               s2 = (if \<not> roomIsPlaying s
                     then updateRoomVideoState now
                            \<lparr>upd_videoId = None, upd_isPlaying = Some True,
                             upd_currentTime = Some (playerTimeOr0 s)\<rparr> s1
                     else s1)
           in s2\<lparr>syncIntervalRef := Some (syncIntervalMs cfg),
                 syncIntervalClosure := render_of s\<rparr>)
      | PAUSED \<Rightarrow>
          (let s1 = s\<lparr>localIsPlaying := False, isBuffering := False\<rparr>;
               s2 = (if roomIsPlaying s
                     then updateRoomVideoState now
                            \<lparr>upd_videoId = None, upd_isPlaying = Some False,
                             upd_currentTime = Some (playerTimeOr0 s)\<rparr> s1
                     else s1)
           in s2\<lparr>syncIntervalRef := None\<rparr>)
      | BUFFERING \<Rightarrow> s\<lparr>isBuffering := True\<rparr>
      | ENDED \<Rightarrow> playNextVideo now (s\<lparr>localIsPlaying := False, syncIntervalRef := None\<rparr>)
      | UNSTARTED \<Rightarrow> s
      | CUED \<Rightarrow> s)"

definition togglePlayPause :: "engine \<Rightarrow> engine" where
  "togglePlayPause s =
     (case playerRef s of
        None \<Rightarrow> s
      | Some _ \<Rightarrow> s\<lparr>commands := commands s @ [if localIsPlaying s then PauseVideo else PlayVideo]\<rparr>)"

definition toggleMute :: "engine \<Rightarrow> engine" where
  "toggleMute s =
     (case playerRef s of
        None \<Rightarrow> s
      | Some _ \<Rightarrow> s\<lparr>commands := commands s @ [if isMuted s then UnMute else Mute],
                     isMuted := \<not> isMuted s\<rparr>)"

text \<open>
  \<open>fetchInitialState\<close> as the closure of render \<open>r\<close>, from the point where the query has
  answered: \<open>Inl\<close> is the thrown error, \<open>Inr\<close> the \<open>video_state\<close> column (\<open>None\<close> when
  there is none). The \<open>playlist\<close> it tests and the \<open>updateRoomVideoState\<close> it calls are
  those of \<open>r\<close>.
\<close>

definition fetchInitialState ::
  "render \<Rightarrow> int \<Rightarrow> string + VideoState option \<Rightarrow> engine \<Rightarrow> engine" where
  "fetchInitialState r now res s =
     (let s' =
        (case res of
           Inl e \<Rightarrow> s\<lparr>console := console s @ [ConsoleError ''Error fetching initial state:'' e]\<rparr>
         | Inr None \<Rightarrow> s
         | Inr (Some vs) \<Rightarrow>
             if truthy (videoId vs)
             then (if isInPlaylist (r_playlist r) (videoId vs) \<or> length (r_playlist r) = 0
                   then s\<lparr>videoState := Some vs, localIsPlaying := isPlaying vs\<rparr>
                   else (if length (r_playlist r) > 0
                         then updateRoomVideoState_in r now
                                \<lparr>upd_videoId = Some (video_id (r_playlist r ! 0)),
                                 upd_isPlaying = Some True, upd_currentTime = Some 0\<rparr> s
                         else s))
             else s\<lparr>videoState := Some vs, localIsPlaying := isPlaying vs\<rparr>)
      in s'\<lparr>isLoading := False\<rparr>)"

text \<open>
  \<open>fetchRoomPlaylist\<close> from the point where the query has answered. Its own call of
  \<open>updateCurrentVideoPosition\<close> is overwritten in the next render, where the effect on
  \<open>[videoState?.videoId, playlist]\<close> runs it against the new playlist; that is the value
  kept here. On an error the previous playlist stays.
\<close>

definition fetchRoomPlaylist :: "string + PlaylistItem list \<Rightarrow> engine \<Rightarrow> engine" where
  "fetchRoomPlaylist res s =
     (case res of
        Inl e \<Rightarrow> s\<lparr>console := console s @ [ConsoleError ''Error fetching room playlist:'' e]\<rparr>
      | Inr data \<Rightarrow> updateCurrentVideoPosition (s\<lparr>playlist := data\<rparr>))"

section \<open>The component as an event-driven machine\<close>

datatype event =
    RemoteUpdate int VideoState
  | PlayerStateChange int PlayerState
  | SyncTick int
  | WriteResult "string option"
  | PlaylistFetched "string + PlaylistItem list"
  | InitialStateFetched int "string + VideoState option"
  | PlayerReady real
  | PlayerReadyTimeout
  | PlayerClock real
  | SelectVideo int string
  | SkipNext int
  | TogglePlayPause
  | ToggleMute

text \<open>
  One handler runs to completion per event; afterwards the position effect recomputes
  \<open>currentVideoPosition\<close>. A remote update and the answer of the initial fetch are handled
  by closures of the first render; the timer callback runs only while a timer is set and
  is the closure of the render kept in \<open>syncIntervalClosure\<close>; every other handler
  belongs to the current render. \<open>PlayerClock\<close> is the passage of playback time inside
  the player, and \<open>SelectVideo\<close> is a direct call of \<open>playVideoFromPlaylist\<close>. Every event is
  admitted in every state, so the machine has at least the runs of the component.
\<close>

definition handle :: "config \<Rightarrow> event \<Rightarrow> engine \<Rightarrow> engine" where
  "handle cfg e s =
     (case e of
        RemoteUpdate now newState \<Rightarrow> handleVideoStateChange mount_render cfg now newState s
      | PlayerStateChange now ev \<Rightarrow> onPlayerStateChange cfg now ev s
      | SyncTick now \<Rightarrow>
          (if syncIntervalRef s = None then s
           else syncIntervalTick (syncIntervalClosure s) now s)
      | WriteResult error \<Rightarrow> updateRoomVideoState_then error s
      | PlaylistFetched res \<Rightarrow> fetchRoomPlaylist res s
      | InitialStateFetched now res \<Rightarrow> fetchInitialState mount_render now res s
      | PlayerReady target \<Rightarrow> onPlayerReady target s
      | PlayerReadyTimeout \<Rightarrow> onPlayerReady_timeout s
      | PlayerClock t \<Rightarrow> s\<lparr>playerRef := map_option (\<lambda>_. t) (playerRef s)\<rparr>
      | SelectVideo now v \<Rightarrow> playVideoFromPlaylist now v s
      | SkipNext now \<Rightarrow> playNextVideo now s
      | TogglePlayPause \<Rightarrow> togglePlayPause s
      | ToggleMute \<Rightarrow> toggleMute s)"

definition step :: "config \<Rightarrow> event \<Rightarrow> engine \<Rightarrow> engine" where
  "step cfg e s = updateCurrentVideoPosition (handle cfg e s)"

fun run :: "config \<Rightarrow> event list \<Rightarrow> engine \<Rightarrow> engine" where
  "run cfg [] s = s"
| "run cfg (e # es) s = run cfg es (step cfg e s)"

section \<open>Properties and example data\<close>

text \<open>\<open>videoState?.videoId\<close>\<close>

definition currentRef :: "engine \<Rightarrow> string option" where
  "currentRef s = (case videoState s of None \<Rightarrow> None | Some st \<Rightarrow> videoId st)"

text \<open>
  The membership invariant on a component state: with a non-empty playlist, the current
  video id is absent (null or empty, the two values the source treats as no video) or is the
  \<open>video_id\<close> of a playlist entry.
\<close>

definition membership_inv :: "engine \<Rightarrow> bool" where
  "membership_inv s =
     (length (playlist s) > 0 \<longrightarrow>
        \<not> truthy (currentRef s) \<or> isInPlaylist (playlist s) (currentRef s))"

text \<open>A playlist refresh that delivers a non-empty playlist without the current video.\<close>

definition drops_current :: "event \<Rightarrow> engine \<Rightarrow> bool" where
  "drops_current e s =
     (case e of
        PlaylistFetched (Inr data) \<Rightarrow>
          length data > 0 \<and> truthy (currentRef s) \<and> \<not> isInPlaylist data (currentRef s)
      | _ \<Rightarrow> False)"

text \<open>
  The events whose handler reads the video state and the playlist of the current render:
  all but the remote update, the answer of the initial fetch and the timer tick.
\<close>

definition current_render_event :: "event \<Rightarrow> bool" where
  "current_render_event e =
     (case e of
        RemoteUpdate _ _ \<Rightarrow> False
      | InitialStateFetched _ _ \<Rightarrow> False
      | SyncTick _ \<Rightarrow> False
      | _ \<Rightarrow> True)"

text \<open>A run of such events in which no playlist refresh drops the current video.\<close>

fun never_drops :: "config \<Rightarrow> event list \<Rightarrow> engine \<Rightarrow> bool" where
  "never_drops cfg [] s = True"
| "never_drops cfg (e # es) s =
     (current_render_event e \<and> \<not> drops_current e s \<and> never_drops cfg es (step cfg e s))"

text \<open>The membership test of \<open>handleVideoStateChange\<close>, made in render \<open>r\<close>, fails.\<close>

definition remote_rejected :: "render \<Rightarrow> VideoState \<Rightarrow> bool" where
  "remote_rejected r newState =
     (truthy (videoId newState)
      \<and> \<not> isInPlaylist (r_playlist r) (videoId newState) \<and> length (r_playlist r) > 0)"

text \<open>The commands a handler has sent to the player, given the states before and after.\<close>

definition issued :: "engine \<Rightarrow> engine \<Rightarrow> player_cmd list" where
  "issued s s' = drop (length (commands s)) (commands s')"

text \<open>
  Once a timer is set, its callback has seen a video state whenever the component has
  one.
\<close>

definition closure_inv :: "engine \<Rightarrow> bool" where
  "closure_inv s =
     (syncIntervalRef s \<noteq> None \<longrightarrow> videoState s = None \<longrightarrow>
        r_videoState (syncIntervalClosure s) = None)"

definition mkItem :: "string \<Rightarrow> string \<Rightarrow> int \<Rightarrow> PlaylistItem" where
  "mkItem v t p = \<lparr>item_id = t, video_id = v, title = t, position = p\<rparr>"

definition itemA :: PlaylistItem where "itemA = mkItem ''A'' ''Video A'' 0"
definition itemB :: PlaylistItem where "itemB = mkItem ''B'' ''Video B'' 1"
definition itemC :: PlaylistItem where "itemC = mkItem ''C'' ''Video C'' 2"

definition mkState :: "string \<Rightarrow> bool \<Rightarrow> real \<Rightarrow> VideoState" where
  "mkState v p t = \<lparr>videoId = Some v, isPlaying = p, currentTime = t, timestamp = 0\<rparr>"

text \<open>A room \<open>''r''\<close> showing video \<open>v\<close> with playlist \<open>pl\<close>, the player mounted at time \<open>t\<close>.\<close>

definition room :: "PlaylistItem list \<Rightarrow> string \<Rightarrow> bool \<Rightarrow> real \<Rightarrow> engine" where
  "room pl v p t =
     (init ''r'')\<lparr>videoState := Some (mkState v p t), localIsPlaying := p, isLoading := False,
                  playlist := pl, playerRef := Some t\<rparr>"

text \<open>A room with playlist \<open>pl\<close> in which no video state has been seen yet.\<close>

definition idle_room :: "PlaylistItem list \<Rightarrow> engine" where
  "idle_room pl = (init ''r'')\<lparr>isLoading := False, playlist := pl\<rparr>"

text \<open>
  A run in which the initial state shows video A, the playlist arrives as A, B, and a
  later refresh delivers B alone (A has been removed from the room playlist).
\<close>

definition removal_trace :: "event list" where
  "removal_trace =
     [InitialStateFetched 0 (Inr (Some (mkState ''A'' True 10))),
      PlaylistFetched (Inr [itemA, itemB]),
      PlaylistFetched (Inr [itemB])]"

text \<open>
  A run in which the player mounts, reports \<open>PLAYING\<close> and then \<open>BUFFERING\<close>.
\<close>

definition buffering_trace :: "event list" where
  "buffering_trace =
     [InitialStateFetched 0 (Inr (Some (mkState ''A'' True 10))),
      PlayerReady 10,
      PlayerStateChange 1000 PLAYING,
      PlayerStateChange 2000 BUFFERING]"

text \<open>The update sent when the local user pauses at 10 s.\<close>

definition pause_update :: VideoStateUpdate where
  "pause_update = \<lparr>upd_videoId = None, upd_isPlaying = Some False, upd_currentTime = Some 10\<rparr>"

text \<open>
  A run in which the room shows video A, the player mounts at 10 s and reports \<open>PLAYING\<close>,
  and the playlist A, B has arrived.
\<close>

definition watching_trace :: "event list" where
  "watching_trace =
     [InitialStateFetched 0 (Inr (Some (mkState ''A'' True 10))),
      PlaylistFetched (Inr [itemA, itemB]),
      PlayerReady 10,
      PlayerStateChange 1000 PLAYING]"

section \<open>Basic facts about the operations\<close>

lemma isInPlaylist_iff:
  "isInPlaylist pl v = (\<exists>item \<in> set pl. Some (video_id item) = v)"
  by (simp add: isInPlaylist_def list_ex_iff)

lemma isInPlaylist_Nil [simp]: "\<not> isInPlaylist [] v"
  by (simp add: isInPlaylist_def)

lemma findIndex_None: "(findIndex P xs = None) = (\<forall>x \<in> set xs. \<not> P x)"
  by (induction xs) auto

lemma findIndex_Some:
  "findIndex P xs = Some i \<Longrightarrow> i < length xs \<and> P (xs ! i) \<and> (\<forall>j < i. \<not> P (xs ! j))"
proof (induction xs arbitrary: i)
  case Nil
  then show ?case by simp
next
  case (Cons x xs)
  show ?case
  proof (cases "P x")
    case True
    with Cons.prems show ?thesis by simp
  next
    case False
    with Cons.prems obtain k where k: "findIndex P xs = Some k" "i = Suc k"
      by auto
    from Cons.IH [OF k(1)] have ih: "k < length xs" "P (xs ! k)" "\<forall>j < k. \<not> P (xs ! j)"
      by simp_all
    have "\<forall>j < Suc k. \<not> P ((x # xs) ! j)"
    proof (intro allI impI)
      fix j assume "j < Suc k"
      then show "\<not> P ((x # xs) ! j)"
        using False ih(3) by (cases j) auto
    qed
    with ih k show ?thesis by simp
  qed
qed

lemma findIndex_first:
  assumes "i < length xs" "P (xs ! i)" "\<forall>j < i. \<not> P (xs ! j)"
  shows "findIndex P xs = Some i"
proof (cases "findIndex P xs")
  case None
  with assms(1,2) show ?thesis
    by (auto simp: findIndex_None)
next
  case (Some k)
  from findIndex_Some [OF Some] have k: "k < length xs" "P (xs ! k)" "\<forall>j < k. \<not> P (xs ! j)"
    by simp_all
  have "\<not> i < k" using k(3) assms(2) by blast
  moreover have "\<not> k < i" using assms(3) k(2) by blast
  ultimately have "k = i" by simp
  with Some show ?thesis by simp
qed

lemma mount_render_fields [simp]:
  "r_videoState mount_render = None"
  "r_localIsPlaying mount_render = False"
  "r_playlist mount_render = []"
  by (simp_all add: mount_render_def)

lemma render_of_fields [simp]:
  "r_videoState (render_of s) = videoState s"
  "r_localIsPlaying (render_of s) = localIsPlaying s"
  "r_playlist (render_of s) = playlist s"
  by (simp_all add: render_of_def)

lemma updateCurrentVideoPosition_fields [simp]:
  "videoState (updateCurrentVideoPosition s) = videoState s"
  "playlist (updateCurrentVideoPosition s) = playlist s"
  "writes (updateCurrentVideoPosition s) = writes s"
  "syncIntervalRef (updateCurrentVideoPosition s) = syncIntervalRef s"
  "syncIntervalClosure (updateCurrentVideoPosition s) = syncIntervalClosure s"
  "isBuffering (updateCurrentVideoPosition s) = isBuffering s"
  "commands (updateCurrentVideoPosition s) = commands s"
  "localIsPlaying (updateCurrentVideoPosition s) = localIsPlaying s"
  by (simp_all add: updateCurrentVideoPosition_def split: option.splits)

lemma currentRef_updateCurrentVideoPosition [simp]:
  "currentRef (updateCurrentVideoPosition s) = currentRef s"
  by (simp add: currentRef_def)

lemma membership_inv_updateCurrentVideoPosition [simp]:
  "membership_inv (updateCurrentVideoPosition s) = membership_inv s"
  by (simp add: membership_inv_def)

text \<open>\<open>updateRoomVideoState\<close> in the current render, written out.\<close>

lemma updateRoomVideoState_unfold:
  "updateRoomVideoState now updateData s =
     (if roomId s = [] then s
      else case videoState s of
        None \<Rightarrow> s
      | Some st \<Rightarrow>
          if truthy (upd_videoId updateData) \<and> length (playlist s) > 0
                  \<and> \<not> isInPlaylist (playlist s) (upd_videoId updateData)
          then s\<lparr>console := console s @
                    [ConsoleLog ''Attempted to play video not in playlist:''
                       (upd_videoId updateData)],
                 toasts := toasts s @ [cant_play_toast]\<rparr>
          else s\<lparr>lastSyncTimeRef := now,
                 videoState := Some (merge_state st updateData now),
                 writes := writes s @ [merge_state st updateData now]\<rparr>)"
  by (simp add: updateRoomVideoState_def updateRoomVideoState_in_def split: option.splits)

lemma updateRoomVideoState_in_None:
  "r_videoState r = None \<Longrightarrow> updateRoomVideoState_in r now u s = s"
  by (simp add: updateRoomVideoState_in_def)

lemma updateRoomVideoState_None:
  "videoState s = None \<Longrightarrow> updateRoomVideoState now u s = s"
  by (simp add: updateRoomVideoState_unfold)

lemma updateRoomVideoState_publish:
  assumes "roomId s \<noteq> []" "videoState s = Some st"
    and "\<not> (truthy (upd_videoId u) \<and> length (playlist s) > 0
            \<and> \<not> isInPlaylist (playlist s) (upd_videoId u))"
  shows "updateRoomVideoState now u s =
           s\<lparr>lastSyncTimeRef := now, videoState := Some (merge_state st u now),
             writes := writes s @ [merge_state st u now]\<rparr>"
  using assms by (auto simp: updateRoomVideoState_unfold)

lemma updateRoomVideoState_in_frame [simp]:
  "playlist (updateRoomVideoState_in r now u s) = playlist s"
  "commands (updateRoomVideoState_in r now u s) = commands s"
  "syncIntervalRef (updateRoomVideoState_in r now u s) = syncIntervalRef s"
  "syncIntervalClosure (updateRoomVideoState_in r now u s) = syncIntervalClosure s"
  "playerRef (updateRoomVideoState_in r now u s) = playerRef s"
  "currentVideoPosition (updateRoomVideoState_in r now u s) = currentVideoPosition s"
  "roomId (updateRoomVideoState_in r now u s) = roomId s"
  "localIsPlaying (updateRoomVideoState_in r now u s) = localIsPlaying s"
  by (simp_all add: updateRoomVideoState_in_def split: option.splits)

lemma updateRoomVideoState_frame [simp]:
  "playlist (updateRoomVideoState now u s) = playlist s"
  "commands (updateRoomVideoState now u s) = commands s"
  "syncIntervalRef (updateRoomVideoState now u s) = syncIntervalRef s"
  "syncIntervalClosure (updateRoomVideoState now u s) = syncIntervalClosure s"
  "playerRef (updateRoomVideoState now u s) = playerRef s"
  "currentVideoPosition (updateRoomVideoState now u s) = currentVideoPosition s"
  "roomId (updateRoomVideoState now u s) = roomId s"
  "localIsPlaying (updateRoomVideoState now u s) = localIsPlaying s"
  by (simp_all add: updateRoomVideoState_def)

lemma membership_inv_updateRoomVideoState:
  "membership_inv s \<Longrightarrow> membership_inv (updateRoomVideoState now u s)"
  by (auto simp: membership_inv_def updateRoomVideoState_unfold currentRef_def merge_state_def
        truthy_def split: option.splits)

lemma playVideoFromPlaylist_frame [simp]:
  "playlist (playVideoFromPlaylist now v s) = playlist s"
  "commands (playVideoFromPlaylist now v s) = commands s"
  "syncIntervalRef (playVideoFromPlaylist now v s) = syncIntervalRef s"
  "syncIntervalClosure (playVideoFromPlaylist now v s) = syncIntervalClosure s"
  "playerRef (playVideoFromPlaylist now v s) = playerRef s"
  "localIsPlaying (playVideoFromPlaylist now v s) = localIsPlaying s"
  by (simp_all add: playVideoFromPlaylist_def)

lemma membership_inv_playVideoFromPlaylist:
  "membership_inv s \<Longrightarrow> membership_inv (playVideoFromPlaylist now v s)"
  by (simp add: playVideoFromPlaylist_def membership_inv_updateRoomVideoState)
    (simp add: membership_inv_def currentRef_def)

lemma membership_inv_toasts [simp]:
  "membership_inv (s\<lparr>toasts := ts\<rparr>) = membership_inv s"
  by (simp add: membership_inv_def currentRef_def)

lemma membership_inv_local_fields [simp]:
  "membership_inv (s\<lparr>localIsPlaying := b\<rparr>) = membership_inv s"
  "membership_inv (s\<lparr>isBuffering := b\<rparr>) = membership_inv s"
  "membership_inv (s\<lparr>syncIntervalRef := t\<rparr>) = membership_inv s"
  "membership_inv (s\<lparr>syncIntervalClosure := r\<rparr>) = membership_inv s"
  "membership_inv (s\<lparr>readyTimeouts := q\<rparr>) = membership_inv s"
  "membership_inv (s\<lparr>isLoading := b\<rparr>) = membership_inv s"
  "membership_inv (s\<lparr>console := c\<rparr>) = membership_inv s"
  "membership_inv (s\<lparr>commands := cs\<rparr>) = membership_inv s"
  "membership_inv (s\<lparr>playerRef := p\<rparr>) = membership_inv s"
  "membership_inv (s\<lparr>isMuted := b\<rparr>) = membership_inv s"
  by (simp_all add: membership_inv_def currentRef_def)

lemma nextVideo_mem:
  "nextVideo pl pos = Some e \<Longrightarrow> e \<in> set pl"
  by (auto simp: nextVideo_def split: if_splits option.splits)

lemma playNextVideo_nextVideo:
  "playNextVideo now s =
     (case nextVideo (playlist s) (currentVideoPosition s) of
        None \<Rightarrow> s
      | Some e \<Rightarrow>
          (playVideoFromPlaylist now (video_id e) s)
            \<lparr>toasts := toasts (playVideoFromPlaylist now (video_id e) s)
               @ [if currentVideoPosition s = None
                  then Toast ''Playlist restarted''
                         ''Playing from the beginning of the playlist'' Default
                  else Toast ''Playing next'' (title e) Default]\<rparr>)"
  by (auto simp: playNextVideo_def nextVideo_def Let_def split: option.splits)

lemma playNextVideo_frame [simp]:
  "syncIntervalRef (playNextVideo now s) = syncIntervalRef s"
  "syncIntervalClosure (playNextVideo now s) = syncIntervalClosure s"
  "commands (playNextVideo now s) = commands s"
  "localIsPlaying (playNextVideo now s) = localIsPlaying s"
  "playerRef (playNextVideo now s) = playerRef s"
  by (simp_all add: playNextVideo_nextVideo split: option.splits)

lemma membership_inv_playNextVideo:
  "membership_inv s \<Longrightarrow> membership_inv (playNextVideo now s)"
  by (simp add: playNextVideo_def Let_def membership_inv_playVideoFromPlaylist
        split: option.splits)

lemma membership_inv_onPlayerStateChange:
  "membership_inv s \<Longrightarrow> membership_inv (onPlayerStateChange cfg now ev s)"
  by (cases ev)
    (simp_all add: onPlayerStateChange_def Let_def membership_inv_updateRoomVideoState
       membership_inv_playNextVideo)

lemma membership_inv_small_handlers:
  "membership_inv (updateRoomVideoState_then error s) = membership_inv s"
  "membership_inv (onPlayerReady target s) = membership_inv s"
  "membership_inv (onPlayerReady_timeout s) = membership_inv s"
  "membership_inv (togglePlayPause s) = membership_inv s"
  "membership_inv (toggleMute s) = membership_inv s"
  by (simp_all add: updateRoomVideoState_then_def onPlayerReady_def onPlayerReady_timeout_def
        togglePlayPause_def toggleMute_def membership_inv_def currentRef_def
        split: option.splits list.splits)

lemma membership_inv_fetchRoomPlaylist:
  assumes "membership_inv s"
  shows "membership_inv (fetchRoomPlaylist res s) = (\<not> drops_current (PlaylistFetched res) s)"
  using assms
  by (cases res)
    (auto simp: fetchRoomPlaylist_def drops_current_def membership_inv_def currentRef_def)

lemma membership_inv_step_iff:
  assumes "membership_inv s" and "current_render_event e"
  shows "membership_inv (step cfg e s) = (\<not> drops_current e s)"
proof (cases e)
  case (PlaylistFetched res)
  with membership_inv_fetchRoomPlaylist [OF assms(1), of res] show ?thesis
    by (simp add: step_def handle_def)
next
  case (PlayerStateChange now ev)
  with membership_inv_onPlayerStateChange [OF assms(1)] show ?thesis
    by (simp add: step_def handle_def drops_current_def)
next
  case (SelectVideo now v)
  with membership_inv_playVideoFromPlaylist [OF assms(1)] show ?thesis
    by (simp add: step_def handle_def drops_current_def)
next
  case (SkipNext now)
  with membership_inv_playNextVideo [OF assms(1)] show ?thesis
    by (simp add: step_def handle_def drops_current_def)
qed (use assms in \<open>simp_all add: step_def handle_def drops_current_def
       current_render_event_def membership_inv_small_handlers\<close>)

lemma membership_inv_run:
  "membership_inv s \<Longrightarrow> never_drops cfg es s \<Longrightarrow> membership_inv (run cfg es s)"
proof (induction es arbitrary: s)
  case Nil
  then show ?case by simp
next
  case (Cons e es)
  from Cons.prems have "membership_inv (step cfg e s)"
    by (simp add: membership_inv_step_iff)
  with Cons.prems Cons.IH show ?case by simp
qed

lemma membership_inv_init: "membership_inv (init rid)"
  by (simp add: membership_inv_def init_def)

section \<open>Claims\<close>

text \<open>
  C1. Membership invariant. A handler of the current render that writes \<open>videoState\<close>
  (selection, skip and auto-advance, the play and pause publishes) keeps the invariant
  against the playlist it sees. A playlist refresh does not look at \<open>videoState\<close>: it
  keeps the invariant if and only if the playlist it delivers is empty or still holds the
  current video. So for every state that satisfies the invariant and every event handled
  in the current render, the state after the event satisfies it if and only if the event
  is not a refresh that drops the current video, and every run of such events without
  such a refresh leads from a state that satisfies the invariant to one that does. The
  remote update, the answer of the initial fetch and the timer tick are handled by
  closures of earlier renders and are not covered.
\<close>

theorem membership_inv_step:
  "(membership_inv s \<and> current_render_event e \<longrightarrow>
      membership_inv (step cfg e s) = (\<not> drops_current e s))
   \<and> (membership_inv s \<and> never_drops cfg es s \<longrightarrow> membership_inv (run cfg es s))
   \<and> membership_inv (init rid)"
  using membership_inv_step_iff [of s e cfg] membership_inv_run [of s cfg es]
    membership_inv_init [of rid]
  by blast

text \<open>
  Witness: in a room with playlist A, B that plays A, a selection of B keeps the
  invariant, and so does the run in which A ends, the playlist is refreshed unchanged and
  the user skips.
\<close>

theorem membership_inv_step_witness:
  "membership_inv (room [itemA, itemB] ''A'' True 10)
   \<and> current_render_event (SelectVideo 5000 ''B'')
   \<and> \<not> drops_current (SelectVideo 5000 ''B'') (room [itemA, itemB] ''A'' True 10)
   \<and> membership_inv (step VideoPlayer_config (SelectVideo 5000 ''B'')
        (room [itemA, itemB] ''A'' True 10))
   \<and> never_drops VideoPlayer_config
        [PlayerStateChange 9000 ENDED, PlaylistFetched (Inr [itemA, itemB]), SkipNext 12000]
        (room [itemA, itemB] ''A'' True 10)
   \<and> membership_inv (run VideoPlayer_config
        [PlayerStateChange 9000 ENDED, PlaylistFetched (Inr [itemA, itemB]), SkipNext 12000]
        (room [itemA, itemB] ''A'' True 10))"
proof -
  have n: "never_drops VideoPlayer_config
        [PlayerStateChange 9000 ENDED, PlaylistFetched (Inr [itemA, itemB]), SkipNext 12000]
        (room [itemA, itemB] ''A'' True 10)"
    by (simp add: current_render_event_def drops_current_def step_def handle_def
          onPlayerStateChange_def playNextVideo_def playVideoFromPlaylist_def
          updateRoomVideoState_unfold updateCurrentVideoPosition_def merge_state_def
          currentRef_def room_def init_def mkState_def truthy_def isInPlaylist_def
          itemA_def itemB_def mkItem_def Let_def)
  have h: "membership_inv (room [itemA, itemB] ''A'' True 10)"
    by (simp add: membership_inv_def room_def init_def currentRef_def mkState_def truthy_def
          isInPlaylist_def itemA_def itemB_def mkItem_def)
  have d: "current_render_event (SelectVideo 5000 ''B'')
           \<and> \<not> drops_current (SelectVideo 5000 ''B'') (room [itemA, itemB] ''A'' True 10)"
    by (simp add: drops_current_def current_render_event_def)
  from membership_inv_step [of "room [itemA, itemB] ''A'' True 10" "SelectVideo 5000 ''B''"
         VideoPlayer_config
         "[PlayerStateChange 9000 ENDED, PlaylistFetched (Inr [itemA, itemB]), SkipNext 12000]"]
    h d n
  show ?thesis by blast
qed

text \<open>
  C1, as stated, fails: after video A is removed from the playlist A, B the state still
  shows A while the playlist is the non-empty B.
\<close>

theorem membership_inv_counterexample:
  "\<not> membership_inv (run VideoPlayer_config removal_trace (init ''r''))"
  by (simp add: removal_trace_def step_def handle_def fetchInitialState_def
        fetchRoomPlaylist_def updateCurrentVideoPosition_def init_def membership_inv_def
        currentRef_def mkState_def truthy_def isInPlaylist_def itemA_def itemB_def mkItem_def)

text \<open>
  C2. Rejection on out-of-playlist selection. With a non-empty playlist that does not
  hold \<open>X\<close>, \<open>playVideoFromPlaylist X\<close> shows the destructive toast "Can't play video",
  writes the console line, and changes nothing else: \<open>videoState\<close> and the last publish
  time are as before and no write is sent.
\<close>

theorem playVideoFromPlaylist_rejects:
  assumes "length (playlist s) > 0" and "\<not> isInPlaylist (playlist s) (Some X)"
  shows "playVideoFromPlaylist now X s =
           s\<lparr>console := console s @
                 [ConsoleLog ''Attempted to play video not in playlist:'' (Some X)],
             toasts := toasts s @ [cant_play_toast]\<rparr>
         \<and> videoState (playVideoFromPlaylist now X s) = videoState s
         \<and> lastSyncTimeRef (playVideoFromPlaylist now X s) = lastSyncTimeRef s
         \<and> writes (playVideoFromPlaylist now X s) = writes s"
  using assms by (simp add: playVideoFromPlaylist_def)

text \<open>Witness: playlist A, B and a selection of X.\<close>

theorem playVideoFromPlaylist_rejects_witness:
  "length (playlist (room [itemA, itemB] ''A'' True 10)) > 0
   \<and> \<not> isInPlaylist (playlist (room [itemA, itemB] ''A'' True 10)) (Some ''X'')
   \<and> toasts (playVideoFromPlaylist 5000 ''X'' (room [itemA, itemB] ''A'' True 10))
       = [cant_play_toast]
   \<and> videoState (playVideoFromPlaylist 5000 ''X'' (room [itemA, itemB] ''A'' True 10))
       = Some (mkState ''A'' True 10)
   \<and> writes (playVideoFromPlaylist 5000 ''X'' (room [itemA, itemB] ''A'' True 10)) = []"
proof -
  have h1: "length (playlist (room [itemA, itemB] ''A'' True 10)) > 0"
    by (simp add: room_def)
  have h2: "\<not> isInPlaylist (playlist (room [itemA, itemB] ''A'' True 10)) (Some ''X'')"
    by (simp add: room_def isInPlaylist_def itemA_def itemB_def mkItem_def)
  from playVideoFromPlaylist_rejects [OF h1 h2, of 5000] h1 h2 show ?thesis
    by (simp add: room_def init_def)
qed

text \<open>
  C3. Empty-playlist bypass. With an empty playlist neither guard rejects: a local
  selection of any video shows no toast and, once a video state exists, is published with
  that video; a remote update that is not suppressed as an echo becomes the video state,
  in whatever render the handler sees the empty playlist, and in particular in the first
  render, in which the subscription made its callback. Conversely a rejection, local or
  remote, implies a non-empty playlist.
\<close>

theorem empty_playlist_bypass:
  "(playlist s = [] \<longrightarrow>
      toasts (playVideoFromPlaylist now v s) = toasts s
      \<and> console (playVideoFromPlaylist now v s) = console s
      \<and> (roomId s \<noteq> [] \<and> videoState s = Some st \<longrightarrow>
           playVideoFromPlaylist now v s =
             s\<lparr>lastSyncTimeRef := now,
               videoState := Some (st\<lparr>videoId := Some v, isPlaying := True,
                                      currentTime := 0, timestamp := now\<rparr>),
               writes := writes s @ [st\<lparr>videoId := Some v, isPlaying := True,
                                        currentTime := 0, timestamp := now\<rparr>]\<rparr>)
      \<and> (\<not> now - lastSyncTimeRef s < 1000 \<longrightarrow>
           videoState (handleVideoStateChange (render_of s) cfg now newState s) = Some newState
           \<and> console (handleVideoStateChange (render_of s) cfg now newState s) = console s))
   \<and> (r_playlist r = [] \<and> \<not> now - lastSyncTimeRef s < 1000 \<longrightarrow>
        videoState (handleVideoStateChange r cfg now newState s) = Some newState
        \<and> console (handleVideoStateChange r cfg now newState s) = console s)
   \<and> (\<not> now - lastSyncTimeRef s < 1000 \<longrightarrow>
        videoState (handle cfg (RemoteUpdate now newState) s) = Some newState
        \<and> console (handle cfg (RemoteUpdate now newState) s) = console s)
   \<and> (toasts (playVideoFromPlaylist now v s) \<noteq> toasts s \<longrightarrow> playlist s \<noteq> [])
   \<and> (toasts (updateRoomVideoState now u s) \<noteq> toasts s \<longrightarrow> playlist s \<noteq> [])
   \<and> (remote_rejected r newState \<longrightarrow> r_playlist r \<noteq> [])"
proof -
  have local_quiet: "toasts (playVideoFromPlaylist now v s) = toasts s
      \<and> console (playVideoFromPlaylist now v s) = console s" if "playlist s = []"
    using that
    by (simp add: playVideoFromPlaylist_def updateRoomVideoState_unfold split: option.splits)
  have local_pub: "playVideoFromPlaylist now v s =
             s\<lparr>lastSyncTimeRef := now,
               videoState := Some (st\<lparr>videoId := Some v, isPlaying := True,
                                      currentTime := 0, timestamp := now\<rparr>),
               writes := writes s @ [st\<lparr>videoId := Some v, isPlaying := True,
                                        currentTime := 0, timestamp := now\<rparr>]\<rparr>"
    if "playlist s = []" "roomId s \<noteq> []" "videoState s = Some st"
    using that
    by (simp add: playVideoFromPlaylist_def updateRoomVideoState_unfold merge_state_def)
  have remote: "videoState (handleVideoStateChange q cfg now newState s) = Some newState
           \<and> console (handleVideoStateChange q cfg now newState s) = console s"
    if "r_playlist q = []" "\<not> now - lastSyncTimeRef s < 1000" for q
    using that by (simp add: handleVideoStateChange_def split: option.splits)
  have upd_quiet: "toasts (updateRoomVideoState now u s) = toasts s" if "playlist s = []"
    using that by (simp add: updateRoomVideoState_unfold split: option.splits)
  have rej: "r_playlist r \<noteq> []" if "remote_rejected r newState"
    using that by (auto simp: remote_rejected_def)
  from local_quiet local_pub remote [of "render_of s"] remote [of r] remote [of mount_render]
    upd_quiet rej
  show ?thesis by (simp add: handle_def) blast
qed

text \<open>Witness: an empty playlist; X is selected locally, Y arrives remotely.\<close>

theorem empty_playlist_bypass_witness:
  "playlist (room [] ''A'' True 10) = []
   \<and> toasts (playVideoFromPlaylist 5000 ''X'' (room [] ''A'' True 10)) = []
   \<and> videoState (playVideoFromPlaylist 5000 ''X'' (room [] ''A'' True 10))
       = Some \<lparr>videoId = Some ''X'', isPlaying = True, currentTime = 0, timestamp = 5000\<rparr>
   \<and> writes (playVideoFromPlaylist 5000 ''X'' (room [] ''A'' True 10))
       = [\<lparr>videoId = Some ''X'', isPlaying = True, currentTime = 0, timestamp = 5000\<rparr>]
   \<and> videoState (handle VideoPlayer_config (RemoteUpdate 5000 (mkState ''Y'' True 3))
        (room [] ''A'' True 10)) = Some (mkState ''Y'' True 3)
   \<and> \<not> remote_rejected mount_render (mkState ''Y'' True 3)"
proof -
  have h: "playlist (room [] ''A'' True 10) = []"
    by (simp add: room_def)
  have r: "roomId (room [] ''A'' True 10) \<noteq> []
           \<and> videoState (room [] ''A'' True 10) = Some (mkState ''A'' True 10)
           \<and> \<not> 5000 - lastSyncTimeRef (room [] ''A'' True 10) < 1000"
    by (simp add: room_def init_def)
  from empty_playlist_bypass [of "room [] ''A'' True 10" 5000 "''X''" "mkState ''A'' True 10"
         VideoPlayer_config "mkState ''Y'' True 3" mount_render] h r
  show ?thesis
    by (simp add: room_def init_def mkState_def)
qed

lemma remote_update_applied:
  assumes "\<not> now - lastSyncTimeRef s < 1000"
  shows "handle cfg (RemoteUpdate now newState) s =
           s\<lparr>videoState := Some newState,
             localIsPlaying := (case playerRef s of
                                  None \<Rightarrow> localIsPlaying s
                                | Some _ \<Rightarrow> isPlaying newState)\<rparr>"
  using assms by (simp add: handle_def handleVideoStateChange_def split: option.splits)

lemma remote_update_suppressed:
  "now - lastSyncTimeRef s < 1000 \<Longrightarrow> handleVideoStateChange r cfg now newState s = s"
  by (simp add: handleVideoStateChange_def)

lemma remote_update_sends_nothing:
  "commands (handle cfg (RemoteUpdate now newState) s) = commands s"
  by (simp add: handle_def handleVideoStateChange_def split: option.splits)

text \<open>
  C4. Echo suppression window. A delivery that arrives less than 1000 ms after the
  recorded last publish is dropped, in whatever render the handler was made: the state is
  unchanged and no command is sent. A delivery that arrives later is processed by the
  subscribed handler: it becomes the video state, and the local play flag follows it when
  a player is mounted. Hence at a given moment the handler drops every delivery if and
  only if the moment is inside the window, and a delivery that differs from the video
  state held is dropped if and only if it arrives inside the window; a delivery of the
  very state held can only be told from a dropped one by the play flag. After a local
  publish at \<open>t\<close> the recorded time is \<open>t\<close>: the published state delivered at \<open>t + 500\<close> is
  dropped, and delivered at \<open>t + 1500\<close> it is applied.
\<close>

theorem echo_suppression_window:
  "(now - lastSyncTimeRef s < 1000 \<longrightarrow>
      handleVideoStateChange r cfg now newState s = s
      \<and> handle cfg (RemoteUpdate now newState) s = s)
   \<and> (\<not> now - lastSyncTimeRef s < 1000 \<longrightarrow>
        handle cfg (RemoteUpdate now newState) s =
          s\<lparr>videoState := Some newState,
            localIsPlaying := (case playerRef s of
                                 None \<Rightarrow> localIsPlaying s
                               | Some _ \<Rightarrow> isPlaying newState)\<rparr>)
   \<and> commands (handle cfg (RemoteUpdate now newState) s) = commands s
   \<and> ((\<forall>ns. handle cfg (RemoteUpdate now ns) s = s) = (now - lastSyncTimeRef s < 1000))
   \<and> (videoState s \<noteq> Some newState \<longrightarrow>
        (handle cfg (RemoteUpdate now newState) s = s) = (now - lastSyncTimeRef s < 1000))
   \<and> (roomId s \<noteq> [] \<and> videoState s = Some st
        \<and> \<not> (truthy (upd_videoId u) \<and> length (playlist s) > 0
               \<and> \<not> isInPlaylist (playlist s) (upd_videoId u)) \<longrightarrow>
        lastSyncTimeRef (updateRoomVideoState t u s) = t
        \<and> videoState (updateRoomVideoState t u s) = Some (merge_state st u t)
        \<and> handle cfg (RemoteUpdate (t + 500) (merge_state st u t))
             (updateRoomVideoState t u s) = updateRoomVideoState t u s
        \<and> handle cfg (RemoteUpdate (t + 1500) (merge_state st u t))
             (updateRoomVideoState t u s) =
           (updateRoomVideoState t u s)
             \<lparr>videoState := Some (merge_state st u t),
              localIsPlaying := (case playerRef s of
                                   None \<Rightarrow> localIsPlaying s
                                 | Some _ \<Rightarrow> isPlaying (merge_state st u t))\<rparr>)"
proof -
  have a: "handleVideoStateChange q cfg now ns s = s" if "now - lastSyncTimeRef s < 1000" for q ns
    using that by (rule remote_update_suppressed)
  have a': "handle cfg (RemoteUpdate now ns) s = s" if "now - lastSyncTimeRef s < 1000" for ns
    using that by (simp add: handle_def remote_update_suppressed)
  note b = remote_update_applied [of now s cfg]
  have vs: "videoState (handle cfg (RemoteUpdate now ns) s) = Some ns"
    if "\<not> now - lastSyncTimeRef s < 1000" for ns
    using b [OF that, of ns] by simp
  have all_iff: "(\<forall>ns. handle cfg (RemoteUpdate now ns) s = s) = (now - lastSyncTimeRef s < 1000)"
  proof
    assume all: "\<forall>ns. handle cfg (RemoteUpdate now ns) s = s"
    show "now - lastSyncTimeRef s < 1000"
    proof (rule ccontr)
      assume out: "\<not> now - lastSyncTimeRef s < 1000"
      let ?n0 = "\<lparr>videoId = None, isPlaying = False, currentTime = 0, timestamp = 0\<rparr>"
      let ?n1 = "\<lparr>videoId = None, isPlaying = False, currentTime = 0, timestamp = 1\<rparr>"
      from all vs [OF out, of ?n0] have "videoState s = Some ?n0" by simp
      moreover from all vs [OF out, of ?n1] have "videoState s = Some ?n1" by simp
      ultimately show False by simp
    qed
  next
    assume "now - lastSyncTimeRef s < 1000"
    then show "\<forall>ns. handle cfg (RemoteUpdate now ns) s = s"
      by (simp add: a')
  qed
  have one_iff: "(handle cfg (RemoteUpdate now newState) s = s) = (now - lastSyncTimeRef s < 1000)"
    if new: "videoState s \<noteq> Some newState"
  proof
    assume eq: "handle cfg (RemoteUpdate now newState) s = s"
    show "now - lastSyncTimeRef s < 1000"
    proof (rule ccontr)
      assume out: "\<not> now - lastSyncTimeRef s < 1000"
      from eq vs [OF out, of newState] new show False by simp
    qed
  next
    assume "now - lastSyncTimeRef s < 1000"
    then show "handle cfg (RemoteUpdate now newState) s = s" by (rule a')
  qed
  have d: "lastSyncTimeRef (updateRoomVideoState t u s) = t
        \<and> videoState (updateRoomVideoState t u s) = Some (merge_state st u t)
        \<and> handle cfg (RemoteUpdate (t + 500) (merge_state st u t))
             (updateRoomVideoState t u s) = updateRoomVideoState t u s
        \<and> handle cfg (RemoteUpdate (t + 1500) (merge_state st u t))
             (updateRoomVideoState t u s) =
           (updateRoomVideoState t u s)
             \<lparr>videoState := Some (merge_state st u t),
              localIsPlaying := (case playerRef s of
                                   None \<Rightarrow> localIsPlaying s
                                 | Some _ \<Rightarrow> isPlaying (merge_state st u t))\<rparr>"
    if h: "roomId s \<noteq> []" "videoState s = Some st"
       "\<not> (truthy (upd_videoId u) \<and> length (playlist s) > 0
               \<and> \<not> isInPlaylist (playlist s) (upd_videoId u))"
  proof -
    note pub = updateRoomVideoState_publish [OF h, of t]
    show ?thesis
      unfolding pub
      by (simp add: handle_def handleVideoStateChange_def split: option.splits)
  qed
  from a a' b remote_update_sends_nothing [of cfg now newState s] all_iff one_iff d
  show ?thesis by blast
qed

text \<open>
  Witness: the local user pauses at \<open>t = 5000\<close>. The echo at 5500 is dropped; the same state
  at 6500 is applied, which shows in the local play flag.
\<close>

theorem echo_suppression_window_witness:
  "handle VideoPlayer_config
      (RemoteUpdate 5500 (merge_state (mkState ''A'' True 20) pause_update 5000))
      (updateRoomVideoState 5000 pause_update (room [itemA] ''A'' True 20))
     = updateRoomVideoState 5000 pause_update (room [itemA] ''A'' True 20)
   \<and> localIsPlaying (updateRoomVideoState 5000 pause_update (room [itemA] ''A'' True 20))
   \<and> \<not> localIsPlaying (handle VideoPlayer_config
        (RemoteUpdate 6500 (merge_state (mkState ''A'' True 20) pause_update 5000))
        (updateRoomVideoState 5000 pause_update (room [itemA] ''A'' True 20)))"
proof -
  have h: "roomId (room [itemA] ''A'' True 20) \<noteq> []
      \<and> videoState (room [itemA] ''A'' True 20) = Some (mkState ''A'' True 20)
      \<and> \<not> (truthy (upd_videoId pause_update) \<and> length (playlist (room [itemA] ''A'' True 20)) > 0
             \<and> \<not> isInPlaylist (playlist (room [itemA] ''A'' True 20)) (upd_videoId pause_update))"
    by (simp add: room_def init_def pause_update_def truthy_def)
  have l: "localIsPlaying (updateRoomVideoState 5000 pause_update (room [itemA] ''A'' True 20))"
    by (simp add: room_def init_def)
  have p: "playerRef (room [itemA] ''A'' True 20) = Some 20
      \<and> \<not> isPlaying (merge_state (mkState ''A'' True 20) pause_update 5000)"
    by (simp add: room_def init_def merge_state_def pause_update_def)
  from echo_suppression_window [of 0 "room [itemA] ''A'' True 20" mount_render
         VideoPlayer_config "mkState ''A'' True 20" "mkState ''A'' True 20" pause_update 5000] h
  have "handle VideoPlayer_config
      (RemoteUpdate (5000 + 500) (merge_state (mkState ''A'' True 20) pause_update 5000))
      (updateRoomVideoState 5000 pause_update (room [itemA] ''A'' True 20))
     = updateRoomVideoState 5000 pause_update (room [itemA] ''A'' True 20)
    \<and> handle VideoPlayer_config
      (RemoteUpdate (5000 + 1500) (merge_state (mkState ''A'' True 20) pause_update 5000))
      (updateRoomVideoState 5000 pause_update (room [itemA] ''A'' True 20))
     = (updateRoomVideoState 5000 pause_update (room [itemA] ''A'' True 20))
         \<lparr>videoState := Some (merge_state (mkState ''A'' True 20) pause_update 5000),
          localIsPlaying := (case playerRef (room [itemA] ''A'' True 20) of
                None \<Rightarrow> localIsPlaying (room [itemA] ''A'' True 20)
              | Some _ \<Rightarrow> isPlaying (merge_state (mkState ''A'' True 20) pause_update 5000))\<rparr>"
    by blast
  with l p show ?thesis by simp
qed

text \<open>
  The body of \<open>handleVideoStateChange\<close>, were it run in a render that holds the video of
  the delivery, sends the play/pause reconciliation and then a seek to the delivered time
  exactly when the drift exceeds the threshold.
\<close>

lemma drift_rule_of_body:
  assumes "\<not> now - lastSyncTimeRef s < 1000" and "\<not> remote_rejected r newState"
    and "playerRef s = Some localElapsed"
    and "r_videoState r = Some st" and "videoId newState = videoId st"
  shows "issued s (handleVideoStateChange r cfg now newState s) =
           (if isPlaying newState \<noteq> r_localIsPlaying r
            then [if isPlaying newState then PlayVideo else PauseVideo] else [])
           @ (if driftExceeds cfg localElapsed (currentTime newState)
              then [SeekTo (currentTime newState) True] else [])"
  using assms by (auto simp: handleVideoStateChange_def remote_rejected_def issued_def)

text \<open>
  C5. Drift correction. The subscription calls \<open>handleVideoStateChange\<close> as the closure of
  the first render, whose \<open>videoState\<close> is null: every delivery counts as a change of video
  and the handler returns before the drift check. In a room that shows video A with the
  player at 10.0 s, a delivery of A at 13.1 s, far outside the echo window, is applied to
  the video state and sends no command at all, although 3.1 s exceeds the threshold of
  either copy of the component.
\<close>

theorem drift_not_corrected_on_delivery:
  "playerRef (run VideoPlayer_config watching_trace (init ''r'')) = Some 10
   \<and> videoState (run VideoPlayer_config watching_trace (init ''r''))
       = Some (mkState ''A'' True 10)
   \<and> \<not> 5000 - lastSyncTimeRef (run VideoPlayer_config watching_trace (init ''r'')) < 1000
   \<and> driftExceeds VideoPlayer_config 10 13.1
   \<and> driftExceeds UserPlaylists_config 10 13.1
   \<and> videoState (step VideoPlayer_config (RemoteUpdate 5000 (mkState ''A'' True 13.1))
        (run VideoPlayer_config watching_trace (init ''r'')))
       = Some (mkState ''A'' True 13.1)
   \<and> issued (run VideoPlayer_config watching_trace (init ''r''))
        (step VideoPlayer_config (RemoteUpdate 5000 (mkState ''A'' True 13.1))
           (run VideoPlayer_config watching_trace (init ''r''))) = []
   \<and> issued (run UserPlaylists_config watching_trace (init ''r''))
        (step UserPlaylists_config (RemoteUpdate 5000 (mkState ''A'' True 13.1))
           (run UserPlaylists_config watching_trace (init ''r''))) = []"
proof -
  have st: "playerRef (run VideoPlayer_config watching_trace (init ''r'')) = Some 10
      \<and> videoState (run VideoPlayer_config watching_trace (init ''r''))
          = Some (mkState ''A'' True 10)
      \<and> lastSyncTimeRef (run VideoPlayer_config watching_trace (init ''r'')) = 0"
    by (simp add: watching_trace_def step_def handle_def fetchInitialState_def
          fetchRoomPlaylist_def onPlayerReady_def onPlayerStateChange_def roomIsPlaying_def
          updateCurrentVideoPosition_def isInPlaylist_def itemA_def itemB_def mkItem_def
          Let_def init_def mkState_def truthy_def)
  have dr: "driftExceeds VideoPlayer_config 10 13.1 \<and> driftExceeds UserPlaylists_config 10 13.1"
    by (simp add: driftExceeds_def)
  have out: "\<not> 5000 - lastSyncTimeRef (run VideoPlayer_config watching_trace (init ''r'')) < 1000"
    using st by simp
  have no_cmd: "issued s (step cfg (RemoteUpdate now ns) s) = []" for cfg now ns s
    by (simp add: issued_def step_def remote_update_sends_nothing)
  have vs: "videoState (step VideoPlayer_config (RemoteUpdate 5000 (mkState ''A'' True 13.1))
        (run VideoPlayer_config watching_trace (init ''r'')))
       = Some (mkState ''A'' True 13.1)"
    by (simp add: step_def remote_update_applied [OF out])
  from st dr out vs
    no_cmd [of "run VideoPlayer_config watching_trace (init ''r'')" VideoPlayer_config]
    no_cmd [of "run UserPlaylists_config watching_trace (init ''r'')" UserPlaylists_config]
  show ?thesis
    by blast
qed

text \<open>
  C6. AutoAdvance next entry. \<open>playNextVideo\<close> plays the entry \<open>nextVideo\<close> picks from the
  playlist and the position that \<open>updateCurrentVideoPosition\<close> derives from the current
  video id: nothing for an empty playlist; the first entry when there is no current video
  (the id is null or empty, which is the source's test for no video) or the current video
  is not in the playlist; the entry at \<open>(i + 1) mod length\<close> when there is a current video
  and \<open>i\<close> is the first index holding it.
\<close>

theorem next_entry_computation:
  "(playlist s = [] \<longrightarrow>
      nextVideo (playlist s) (currentVideoPosition (updateCurrentVideoPosition s)) = None)
   \<and> (playlist s \<noteq> [] \<and> (\<not> truthy (currentRef s) \<or> \<not> isInPlaylist (playlist s) (currentRef s))
        \<longrightarrow> nextVideo (playlist s) (currentVideoPosition (updateCurrentVideoPosition s))
              = Some (playlist s ! 0))
   \<and> (truthy (currentRef s) \<and> i < length (playlist s)
        \<and> Some (video_id (playlist s ! i)) = currentRef s
        \<and> (\<forall>j < i. Some (video_id (playlist s ! j)) \<noteq> currentRef s)
        \<longrightarrow> nextVideo (playlist s) (currentVideoPosition (updateCurrentVideoPosition s))
              = Some (playlist s ! ((i + 1) mod length (playlist s))))
   \<and> (nextVideo (playlist s) (currentVideoPosition s) = None \<longrightarrow> playNextVideo now s = s)
   \<and> (nextVideo (playlist s) (currentVideoPosition s) = Some e \<longrightarrow>
        playNextVideo now s =
          (playVideoFromPlaylist now (video_id e) s)
            \<lparr>toasts := toasts (playVideoFromPlaylist now (video_id e) s)
               @ [if currentVideoPosition s = None
                  then Toast ''Playlist restarted''
                         ''Playing from the beginning of the playlist'' Default
                  else Toast ''Playing next'' (title e) Default]\<rparr>)"
proof -
  have a: "nextVideo (playlist s) (currentVideoPosition (updateCurrentVideoPosition s)) = None"
    if "playlist s = []"
    using that by (simp add: nextVideo_def)
  have b: "nextVideo (playlist s) (currentVideoPosition (updateCurrentVideoPosition s))
              = Some (playlist s ! 0)"
    if "playlist s \<noteq> []" "\<not> truthy (currentRef s) \<or> \<not> isInPlaylist (playlist s) (currentRef s)"
  proof -
    have "currentVideoPosition (updateCurrentVideoPosition s) = None"
    proof (cases "videoState s")
      case None
      then show ?thesis by (simp add: updateCurrentVideoPosition_def)
    next
      case (Some st)
      show ?thesis
      proof (cases "truthy (videoId st)")
        case False
        with Some show ?thesis by (simp add: updateCurrentVideoPosition_def)
      next
        case True
        with Some that(2) have "\<not> isInPlaylist (playlist s) (videoId st)"
          by (simp add: currentRef_def)
        then have "findIndex (\<lambda>item. Some (video_id item) = videoId st) (playlist s) = None"
          by (simp add: findIndex_None isInPlaylist_iff)
        with Some show ?thesis by (simp add: updateCurrentVideoPosition_def)
      qed
    qed
    with that(1) show ?thesis by (simp add: nextVideo_def)
  qed
  have c: "nextVideo (playlist s) (currentVideoPosition (updateCurrentVideoPosition s))
              = Some (playlist s ! ((i + 1) mod length (playlist s)))"
    if h: "truthy (currentRef s)" "i < length (playlist s)"
       "Some (video_id (playlist s ! i)) = currentRef s"
       "\<forall>j < i. Some (video_id (playlist s ! j)) \<noteq> currentRef s"
  proof -
    from h(1) obtain st where st: "videoState s = Some st" "truthy (videoId st)"
      by (auto simp: currentRef_def truthy_def split: option.splits)
    from st h have "findIndex (\<lambda>item. Some (video_id item) = videoId st) (playlist s) = Some i"
      by (intro findIndex_first) (simp_all add: currentRef_def)
    with st h(2) have "currentVideoPosition (updateCurrentVideoPosition s) = Some i"
      by (auto simp: updateCurrentVideoPosition_def)
    with h(2) show ?thesis by (auto simp: nextVideo_def)
  qed
  have d: "playNextVideo now s = s" if "nextVideo (playlist s) (currentVideoPosition s) = None"
    using that by (simp add: playNextVideo_nextVideo)
  have e: "playNextVideo now s =
          (playVideoFromPlaylist now (video_id e) s)
            \<lparr>toasts := toasts (playVideoFromPlaylist now (video_id e) s)
               @ [if currentVideoPosition s = None
                  then Toast ''Playlist restarted''
                         ''Playing from the beginning of the playlist'' Default
                  else Toast ''Playing next'' (title e) Default]\<rparr>"
    if "nextVideo (playlist s) (currentVideoPosition s) = Some e"
    using that by (simp add: playNextVideo_nextVideo)
  from a b c d e show ?thesis by blast
qed

text \<open>
  Witness: playlist A, B, C; after B comes C, after C the list wraps to A, and with no
  video state the first entry A is chosen.
\<close>

theorem next_entry_computation_witness:
  "nextVideo [itemA, itemB, itemC]
      (currentVideoPosition (updateCurrentVideoPosition (room [itemA, itemB, itemC] ''B'' True 0)))
     = Some itemC
   \<and> nextVideo [itemA, itemB, itemC]
      (currentVideoPosition (updateCurrentVideoPosition (room [itemA, itemB, itemC] ''C'' True 0)))
     = Some itemA
   \<and> nextVideo [itemA, itemB, itemC]
      (currentVideoPosition (updateCurrentVideoPosition (idle_room [itemA, itemB, itemC])))
     = Some itemA"
proof -
  have hB: "truthy (currentRef (room [itemA, itemB, itemC] ''B'' True 0))
      \<and> 1 < length (playlist (room [itemA, itemB, itemC] ''B'' True 0))
      \<and> Some (video_id (playlist (room [itemA, itemB, itemC] ''B'' True 0) ! 1))
          = currentRef (room [itemA, itemB, itemC] ''B'' True 0)
      \<and> (\<forall>j < 1. Some (video_id (playlist (room [itemA, itemB, itemC] ''B'' True 0) ! j))
          \<noteq> currentRef (room [itemA, itemB, itemC] ''B'' True 0))"
    by (simp add: room_def init_def currentRef_def mkState_def truthy_def itemA_def itemB_def
          itemC_def mkItem_def)
  have hC: "truthy (currentRef (room [itemA, itemB, itemC] ''C'' True 0))
      \<and> 2 < length (playlist (room [itemA, itemB, itemC] ''C'' True 0))
      \<and> Some (video_id (playlist (room [itemA, itemB, itemC] ''C'' True 0) ! 2))
          = currentRef (room [itemA, itemB, itemC] ''C'' True 0)
      \<and> (\<forall>j < 2. Some (video_id (playlist (room [itemA, itemB, itemC] ''C'' True 0) ! j))
          \<noteq> currentRef (room [itemA, itemB, itemC] ''C'' True 0))"
    by (simp add: room_def init_def currentRef_def mkState_def truthy_def itemA_def itemB_def
          itemC_def mkItem_def less_Suc_eq numeral_2_eq_2)
  have hN: "playlist (idle_room [itemA, itemB, itemC]) \<noteq> []
      \<and> \<not> truthy (currentRef (idle_room [itemA, itemB, itemC]))"
    by (simp add: idle_room_def init_def currentRef_def truthy_def)
  have pl: "playlist (room [itemA, itemB, itemC] ''B'' True 0) = [itemA, itemB, itemC]"
    "playlist (room [itemA, itemB, itemC] ''C'' True 0) = [itemA, itemB, itemC]"
    "playlist (idle_room [itemA, itemB, itemC]) = [itemA, itemB, itemC]"
    by (simp_all add: room_def idle_room_def)
  from next_entry_computation [of "room [itemA, itemB, itemC] ''B'' True 0" 1] hB
  have "nextVideo (playlist (room [itemA, itemB, itemC] ''B'' True 0))
      (currentVideoPosition (updateCurrentVideoPosition (room [itemA, itemB, itemC] ''B'' True 0)))
     = Some (playlist (room [itemA, itemB, itemC] ''B'' True 0) ! ((1 + 1) mod 3))"
    by (simp add: pl)
  moreover
  from next_entry_computation [of "room [itemA, itemB, itemC] ''C'' True 0" 2] hC
  have "nextVideo (playlist (room [itemA, itemB, itemC] ''C'' True 0))
      (currentVideoPosition (updateCurrentVideoPosition (room [itemA, itemB, itemC] ''C'' True 0)))
     = Some (playlist (room [itemA, itemB, itemC] ''C'' True 0) ! ((2 + 1) mod 3))"
    by (simp add: pl)
  moreover
  from next_entry_computation [of "idle_room [itemA, itemB, itemC]"] hN
  have "nextVideo (playlist (idle_room [itemA, itemB, itemC]))
      (currentVideoPosition (updateCurrentVideoPosition (idle_room [itemA, itemB, itemC])))
     = Some (playlist (idle_room [itemA, itemB, itemC]) ! 0)"
    by blast
  ultimately show ?thesis
    by (simp add: pl)
qed

lemma playVideoFromPlaylist_member:
  assumes "e \<in> set (playlist s)" and "roomId s \<noteq> []" and "videoState s = Some st"
  shows "playVideoFromPlaylist now (video_id e) s =
           s\<lparr>lastSyncTimeRef := now,
             videoState := Some (st\<lparr>videoId := Some (video_id e), isPlaying := True,
                                    currentTime := 0, timestamp := now\<rparr>),
             writes := writes s @ [st\<lparr>videoId := Some (video_id e), isPlaying := True,
                                      currentTime := 0, timestamp := now\<rparr>]\<rparr>"
proof -
  from assms(1) have mem: "isInPlaylist (playlist s) (Some (video_id e))"
    by (auto simp: isInPlaylist_iff)
  then show ?thesis
    using assms(2,3)
    by (simp add: playVideoFromPlaylist_def updateRoomVideoState_unfold merge_state_def)
qed

text \<open>
  C7. AutoAdvance transition shape. When the player reports \<open>ENDED\<close> in a room that has a
  video state and \<open>nextVideo\<close> yields an entry, the new video state carries that entry's
  video, \<open>isPlaying = true\<close>, \<open>currentTime = 0\<close> and the time of the event, and exactly
  this state is written to the shared channel, with the event time recorded as last
  publish. The sync timer is cleared and no play, pause or seek command is sent. A remote
  delivery of the same state outside the echo window leaves the same video state and
  sends no command either, but it sets the local play flag to true where the auto-advance
  leaves it false. The two premises on the room hold whenever a player can report at
  all: the player is rendered only for a video state with a video id, and a video state
  is only ever fetched or received for a non-empty \<open>roomId\<close>.
\<close>

theorem auto_advance_transition:
  assumes "roomId s \<noteq> []" and "videoState s = Some st"
    and "nextVideo (playlist s) (currentVideoPosition s) = Some e"
  shows "videoState (onPlayerStateChange cfg now ENDED s) =
           Some (st\<lparr>videoId := Some (video_id e), isPlaying := True,
                    currentTime := 0, timestamp := now\<rparr>)
         \<and> writes (onPlayerStateChange cfg now ENDED s) =
             writes s @ [st\<lparr>videoId := Some (video_id e), isPlaying := True,
                            currentTime := 0, timestamp := now\<rparr>]
         \<and> lastSyncTimeRef (onPlayerStateChange cfg now ENDED s) = now
         \<and> commands (onPlayerStateChange cfg now ENDED s) = commands s
         \<and> syncIntervalRef (onPlayerStateChange cfg now ENDED s) = None
         \<and> localIsPlaying (onPlayerStateChange cfg now ENDED s) = False
         \<and> (\<not> now - lastSyncTimeRef s < 1000 \<longrightarrow>
              videoState (handle cfg (RemoteUpdate now
                 (st\<lparr>videoId := Some (video_id e), isPlaying := True,
                     currentTime := 0, timestamp := now\<rparr>)) s)
                = videoState (onPlayerStateChange cfg now ENDED s)
              \<and> commands (handle cfg (RemoteUpdate now
                 (st\<lparr>videoId := Some (video_id e), isPlaying := True,
                     currentTime := 0, timestamp := now\<rparr>)) s)
                = commands (onPlayerStateChange cfg now ENDED s)
              \<and> (playerRef s \<noteq> None \<longrightarrow>
                   localIsPlaying (handle cfg (RemoteUpdate now
                     (st\<lparr>videoId := Some (video_id e), isPlaying := True,
                         currentTime := 0, timestamp := now\<rparr>)) s) = True))"
proof -
  let ?s0 = "s\<lparr>localIsPlaying := False, syncIntervalRef := None\<rparr>"
  let ?p = "st\<lparr>videoId := Some (video_id e), isPlaying := True, currentTime := 0,
              timestamp := now\<rparr>"
  from assms(3) have mem: "e \<in> set (playlist s)"
    by (rule nextVideo_mem)
  have play: "playVideoFromPlaylist now (video_id e) ?s0 =
      ?s0\<lparr>lastSyncTimeRef := now, videoState := Some ?p, writes := writes ?s0 @ [?p]\<rparr>"
    using mem assms(1,2) by (intro playVideoFromPlaylist_member) simp_all
  have ended: "onPlayerStateChange cfg now ENDED s =
      (playVideoFromPlaylist now (video_id e) ?s0)
        \<lparr>toasts := toasts (playVideoFromPlaylist now (video_id e) ?s0)
           @ [if currentVideoPosition s = None
              then Toast ''Playlist restarted''
                     ''Playing from the beginning of the playlist'' Default
              else Toast ''Playing next'' (title e) Default]\<rparr>"
    using assms(3) by (simp add: onPlayerStateChange_def playNextVideo_nextVideo)
  have remote: "videoState (handle cfg (RemoteUpdate now ?p) s) = Some ?p
      \<and> commands (handle cfg (RemoteUpdate now ?p) s) = commands s
      \<and> (playerRef s \<noteq> None \<longrightarrow> localIsPlaying (handle cfg (RemoteUpdate now ?p) s) = True)"
    if "\<not> now - lastSyncTimeRef s < 1000"
    unfolding remote_update_applied [OF that] by auto
  show ?thesis
    unfolding ended play using remote by simp
qed

text \<open>
  Witness: playlist A, B with A playing at index 0; on \<open>ENDED\<close> at time 9000 the room moves
  to B.
\<close>

theorem auto_advance_transition_witness:
  "nextVideo [itemA, itemB] (Some 0) = Some itemB
   \<and> videoState (onPlayerStateChange VideoPlayer_config 9000 ENDED
        ((room [itemA, itemB] ''A'' True 10)\<lparr>currentVideoPosition := Some 0\<rparr>))
       = Some \<lparr>videoId = Some ''B'', isPlaying = True, currentTime = 0, timestamp = 9000\<rparr>
   \<and> writes (onPlayerStateChange VideoPlayer_config 9000 ENDED
        ((room [itemA, itemB] ''A'' True 10)\<lparr>currentVideoPosition := Some 0\<rparr>))
       = [\<lparr>videoId = Some ''B'', isPlaying = True, currentTime = 0, timestamp = 9000\<rparr>]"
proof -
  let ?s = "(room [itemA, itemB] ''A'' True 10)\<lparr>currentVideoPosition := Some 0\<rparr>"
  have h1: "roomId ?s \<noteq> []" and h2: "videoState ?s = Some (mkState ''A'' True 10)"
    by (simp_all add: room_def init_def)
  have n: "nextVideo [itemA, itemB] (Some 0) = Some itemB"
    by (simp add: nextVideo_def)
  have h3: "nextVideo (playlist ?s) (currentVideoPosition ?s) = Some itemB"
    by (simp add: room_def nextVideo_def)
  from auto_advance_transition [OF h1 h2 h3, of VideoPlayer_config 9000] n show ?thesis
    by (simp add: room_def init_def mkState_def itemB_def mkItem_def)
qed

text \<open>
  C7, as stated, fails on "exactly as for a remote video switch": in the room with
  playlist A, B that plays A, the auto-advance to B at 9000 leaves the local play flag
  false, while a remote delivery of the very state it publishes sets the flag to true.
\<close>

theorem auto_advance_counterexample:
  "videoState (step VideoPlayer_config (PlayerStateChange 9000 ENDED)
       (updateCurrentVideoPosition (room [itemA, itemB] ''A'' True 10)))
     = Some \<lparr>videoId = Some ''B'', isPlaying = True, currentTime = 0, timestamp = 9000\<rparr>
   \<and> videoState (step VideoPlayer_config
       (RemoteUpdate 9000
          \<lparr>videoId = Some ''B'', isPlaying = True, currentTime = 0, timestamp = 9000\<rparr>)
       (updateCurrentVideoPosition (room [itemA, itemB] ''A'' True 10)))
     = Some \<lparr>videoId = Some ''B'', isPlaying = True, currentTime = 0, timestamp = 9000\<rparr>
   \<and> \<not> localIsPlaying (step VideoPlayer_config (PlayerStateChange 9000 ENDED)
       (updateCurrentVideoPosition (room [itemA, itemB] ''A'' True 10)))
   \<and> localIsPlaying (step VideoPlayer_config
       (RemoteUpdate 9000
          \<lparr>videoId = Some ''B'', isPlaying = True, currentTime = 0, timestamp = 9000\<rparr>)
       (updateCurrentVideoPosition (room [itemA, itemB] ''A'' True 10)))"
  by (simp add: step_def handle_def onPlayerStateChange_def playNextVideo_def
        playVideoFromPlaylist_def updateRoomVideoState_unfold handleVideoStateChange_def
        updateCurrentVideoPosition_def merge_state_def room_def init_def mkState_def
        truthy_def isInPlaylist_def itemA_def itemB_def mkItem_def Let_def)

text \<open>
  C8. Publish failure. When the write of a published state fails, the callback writes one
  \<open>console.error\<close> line and nothing else: no toast is shown, the video state stays as
  published locally, no second write is sent, and the player receives no command.
\<close>

theorem publish_failure_logged_only:
  "updateRoomVideoState_then (Some err) s =
     s\<lparr>console := console s @ [ConsoleError ''Error updating video state:'' err]\<rparr>
   \<and> toasts (updateRoomVideoState_then (Some err) s) = toasts s
   \<and> videoState (updateRoomVideoState_then (Some err) s) = videoState s
   \<and> localIsPlaying (updateRoomVideoState_then (Some err) s) = localIsPlaying s
   \<and> writes (updateRoomVideoState_then (Some err) s) = writes s
   \<and> commands (updateRoomVideoState_then (Some err) s) = commands s
   \<and> lastSyncTimeRef (updateRoomVideoState_then (Some err) s) = lastSyncTimeRef s"
  by (simp add: updateRoomVideoState_then_def)

text \<open>
  C8, as stated, fails on the notice: the local user pauses, the write is sent, it fails,
  and the list of toasts shown to the user is still empty.
\<close>

theorem publish_failure_counterexample:
  "writes (updateRoomVideoState 5000 pause_update (room [] ''A'' True 10))
     = [\<lparr>videoId = Some ''A'', isPlaying = False, currentTime = 10, timestamp = 5000\<rparr>]
   \<and> toasts (updateRoomVideoState_then (Some ''write failed'')
        (updateRoomVideoState 5000 pause_update (room [] ''A'' True 10))) = []"
  by (simp add: updateRoomVideoState_then_def updateRoomVideoState_unfold pause_update_def
        room_def init_def mkState_def merge_state_def truthy_def)

text \<open>
  C9. Periodic publish timer. The timer is set when the player reports \<open>PLAYING\<close> and is
  cleared when it reports \<open>PAUSED\<close> or \<open>ENDED\<close>. A \<open>BUFFERING\<close> report, like \<open>UNSTARTED\<close> and
  \<open>CUED\<close>, leaves it as it is, and so does a remote update. The timer callback does nothing
  when no timer is set.
\<close>

theorem sync_timer_lifecycle:
  "syncIntervalRef (onPlayerStateChange cfg now PLAYING s) = Some (syncIntervalMs cfg)
   \<and> syncIntervalRef (onPlayerStateChange cfg now PAUSED s) = None
   \<and> syncIntervalRef (onPlayerStateChange cfg now ENDED s) = None
   \<and> syncIntervalRef (onPlayerStateChange cfg now BUFFERING s) = syncIntervalRef s
   \<and> syncIntervalRef (onPlayerStateChange cfg now UNSTARTED s) = syncIntervalRef s
   \<and> syncIntervalRef (onPlayerStateChange cfg now CUED s) = syncIntervalRef s
   \<and> syncIntervalRef (handleVideoStateChange r cfg now newState s) = syncIntervalRef s
   \<and> syncIntervalRef (handle cfg (RemoteUpdate now newState) s) = syncIntervalRef s
   \<and> (syncIntervalRef s = None \<longrightarrow> handle cfg (SyncTick now) s = s)"
  by (simp add: onPlayerStateChange_def Let_def handle_def handleVideoStateChange_def
        split: option.splits)

text \<open>Witness: in a paused room no timer is set and a tick changes nothing.\<close>

theorem sync_timer_lifecycle_witness:
  "syncIntervalRef (onPlayerStateChange VideoPlayer_config 3000 PAUSED (room [] ''A'' True 10))
     = None
   \<and> handle VideoPlayer_config (SyncTick 20000)
       (onPlayerStateChange VideoPlayer_config 3000 PAUSED (room [] ''A'' True 10))
     = onPlayerStateChange VideoPlayer_config 3000 PAUSED (room [] ''A'' True 10)"
proof -
  let ?s = "onPlayerStateChange VideoPlayer_config 3000 PAUSED (room [] ''A'' True 10)"
  from sync_timer_lifecycle [of VideoPlayer_config 3000 "room [] ''A'' True 10"]
  have t: "syncIntervalRef ?s = None"
    by simp
  with sync_timer_lifecycle [of VideoPlayer_config 20000 ?s] show ?thesis
    by simp
qed

text \<open>
  C9, as stated, fails for \<open>BUFFERING\<close>: after the player has reported \<open>PLAYING\<close> and then
  \<open>BUFFERING\<close>, the timer is still set, and its next tick publishes the elapsed time.
\<close>

theorem sync_timer_counterexample:
  "isBuffering (run VideoPlayer_config buffering_trace (init ''r''))
   \<and> syncIntervalRef (run VideoPlayer_config buffering_trace (init ''r'')) = Some 15000
   \<and> writes (run VideoPlayer_config buffering_trace (init ''r'')) = []
   \<and> writes (step VideoPlayer_config (SyncTick 17000)
        (run VideoPlayer_config buffering_trace (init ''r'')))
     = [\<lparr>videoId = Some ''A'', isPlaying = True, currentTime = 10, timestamp = 17000\<rparr>]"
  by (simp add: buffering_trace_def step_def handle_def fetchInitialState_def onPlayerReady_def
        onPlayerStateChange_def syncIntervalTick_def updateRoomVideoState_in_def
        merge_state_def updateCurrentVideoPosition_def roomIsPlaying_def playerTimeOr0_def
        init_def mkState_def truthy_def render_of_def Let_def)

lemma videoState_kept_updateRoomVideoState_in:
  "videoState (updateRoomVideoState_in r now u s) = None \<Longrightarrow> videoState s = None"
  by (simp add: updateRoomVideoState_in_def split: if_splits option.splits)

lemma videoState_kept_playNextVideo:
  "videoState (playNextVideo now s) = None \<Longrightarrow> videoState s = None"
  by (auto simp: playNextVideo_nextVideo playVideoFromPlaylist_def updateRoomVideoState_def
        split: option.splits if_splits dest: videoState_kept_updateRoomVideoState_in)

lemma closure_inv_onPlayerStateChange:
  "closure_inv s \<Longrightarrow> closure_inv (onPlayerStateChange cfg now ev s)"
proof (cases ev)
  case PLAYING
  assume "closure_inv s"
  show ?thesis
    unfolding PLAYING closure_inv_def
    by (auto simp: onPlayerStateChange_def Let_def updateRoomVideoState_def
          split: if_splits dest: videoState_kept_updateRoomVideoState_in)
qed (simp_all add: closure_inv_def onPlayerStateChange_def Let_def)

lemma closure_inv_step:
  assumes "closure_inv s"
  shows "closure_inv (step cfg e s)"
proof (cases e)
  case (PlayerStateChange now ev)
  with closure_inv_onPlayerStateChange [OF assms] show ?thesis
    by (simp add: step_def handle_def closure_inv_def)
next
  case (RemoteUpdate now newState)
  with assms show ?thesis
    by (simp add: step_def handle_def closure_inv_def handleVideoStateChange_def
          split: option.splits)
next
  case (SyncTick now)
  with assms show ?thesis
    by (auto simp: step_def handle_def closure_inv_def syncIntervalTick_def
          split: option.splits dest: videoState_kept_updateRoomVideoState_in)
next
  case (InitialStateFetched now res)
  with assms show ?thesis
    by (auto simp: step_def handle_def closure_inv_def fetchInitialState_def
          updateRoomVideoState_in_None split: sum.splits option.splits)
next
  case (SelectVideo now v)
  with assms show ?thesis
    by (auto simp: step_def handle_def closure_inv_def playVideoFromPlaylist_def
          updateRoomVideoState_def split: if_splits dest: videoState_kept_updateRoomVideoState_in)
next
  case (SkipNext now)
  with assms show ?thesis
    by (auto simp: step_def handle_def closure_inv_def dest: videoState_kept_playNextVideo)
next
  case (PlaylistFetched res)
  with assms show ?thesis
    by (simp add: step_def handle_def closure_inv_def fetchRoomPlaylist_def split: sum.splits)
qed (use assms in \<open>simp_all add: step_def handle_def closure_inv_def
       updateRoomVideoState_then_def onPlayerReady_def onPlayerReady_timeout_def
       togglePlayPause_def toggleMute_def split: option.splits list.splits\<close>)

lemma closure_inv_run:
  "closure_inv s \<Longrightarrow> closure_inv (run cfg es s)"
  by (induction es arbitrary: s) (simp_all add: closure_inv_step)

lemma closure_inv_init: "closure_inv (init rid)"
  by (simp add: closure_inv_def init_def)

text \<open>
  C10. No video state yet. While \<open>videoState\<close> is null, \<open>updateRoomVideoState\<close> and the timer
  callback return the state unchanged, in any render that holds no video state. In every
  state a run can reach, a timer callback has seen no video state while the component has
  none (\<open>closure_inv\<close>), so the tick changes nothing there. Every caller therefore leaves
  the video state null, sends no write, keeps the last publish time and sends no player
  command: the selection, the skip, and the \<open>PLAYING\<close>, \<open>PAUSED\<close> and \<open>ENDED\<close> reports. A
  selection that passes the guard changes nothing at all, and the play/pause toggle does
  nothing while no player is mounted. The skip and the \<open>ENDED\<close> report are not silent,
  though: with a non-empty playlist they still show their toast.
\<close>

theorem no_state_no_publish:
  assumes "videoState s = None"
  shows "updateRoomVideoState now u s = s
         \<and> syncIntervalTick (render_of s) now s = s
         \<and> (r_videoState r = None \<longrightarrow>
              updateRoomVideoState_in r now u s = s \<and> syncIntervalTick r now s = s)
         \<and> (closure_inv s \<longrightarrow> handle cfg (SyncTick now) s = s)
         \<and> closure_inv (run cfg es (init rid))
         \<and> (videoState (run cfg es (init rid)) = None \<longrightarrow>
              handle cfg (SyncTick now) (run cfg es (init rid)) = run cfg es (init rid))
         \<and> (isInPlaylist (playlist s) (Some v) \<or> playlist s = [] \<longrightarrow>
              playVideoFromPlaylist now v s = s)
         \<and> (playerRef s = None \<longrightarrow> togglePlayPause s = s)
         \<and> (playlist s = [] \<longrightarrow> playNextVideo now s = s)
         \<and> (\<forall>s' \<in> {playVideoFromPlaylist now v s, playNextVideo now s,
                      onPlayerStateChange cfg now PLAYING s,
                      onPlayerStateChange cfg now PAUSED s,
                      onPlayerStateChange cfg now ENDED s}.
              videoState s' = None \<and> writes s' = writes s
              \<and> lastSyncTimeRef s' = lastSyncTimeRef s \<and> commands s' = commands s)"
proof -
  have upd: "updateRoomVideoState t w x = x" if "videoState x = None" for t w x
    using that by (rule updateRoomVideoState_None)
  have tick: "syncIntervalTick q now s = s" if "r_videoState q = None" for q
    using that by (simp add: syncIntervalTick_def split: option.splits)
  have play: "videoState (playVideoFromPlaylist t w x) = None
      \<and> writes (playVideoFromPlaylist t w x) = writes x
      \<and> lastSyncTimeRef (playVideoFromPlaylist t w x) = lastSyncTimeRef x
      \<and> commands (playVideoFromPlaylist t w x) = commands x" if "videoState x = None" for t w x
    using that by (simp add: playVideoFromPlaylist_def upd)
  have nxt: "videoState (playNextVideo t x) = None
      \<and> writes (playNextVideo t x) = writes x
      \<and> lastSyncTimeRef (playNextVideo t x) = lastSyncTimeRef x
      \<and> commands (playNextVideo t x) = commands x" if "videoState x = None" for t x
    using that play [OF that] by (simp add: playNextVideo_nextVideo split: option.splits)
  have "syncIntervalTick (render_of s) now s = s"
    using assms by (simp add: tick)
  moreover have "r_videoState r = None \<longrightarrow>
      updateRoomVideoState_in r now u s = s \<and> syncIntervalTick r now s = s"
    by (simp add: tick updateRoomVideoState_in_None)
  moreover have "closure_inv s \<longrightarrow> handle cfg (SyncTick now) s = s"
    using assms by (auto simp: handle_def closure_inv_def tick)
  moreover have ci: "closure_inv (run cfg es (init rid))"
    by (simp add: closure_inv_run closure_inv_init)
  moreover have "videoState (run cfg es (init rid)) = None \<longrightarrow>
      handle cfg (SyncTick now) (run cfg es (init rid)) = run cfg es (init rid)"
    using ci by (auto simp: handle_def closure_inv_def syncIntervalTick_def split: option.splits)
  moreover have "isInPlaylist (playlist s) (Some v) \<or> playlist s = [] \<longrightarrow>
      playVideoFromPlaylist now v s = s"
    using assms by (auto simp: playVideoFromPlaylist_def upd)
  moreover have "playerRef s = None \<longrightarrow> togglePlayPause s = s"
    by (simp add: togglePlayPause_def)
  moreover have "playlist s = [] \<longrightarrow> playNextVideo now s = s"
    by (simp add: playNextVideo_def)
  moreover have "videoState (onPlayerStateChange cfg now ev s) = None
      \<and> writes (onPlayerStateChange cfg now ev s) = writes s
      \<and> lastSyncTimeRef (onPlayerStateChange cfg now ev s) = lastSyncTimeRef s
      \<and> commands (onPlayerStateChange cfg now ev s) = commands s" for ev
    using assms nxt [of "s\<lparr>localIsPlaying := False, syncIntervalRef := None\<rparr>" now]
    by (cases ev) (simp_all add: onPlayerStateChange_def Let_def upd)
  ultimately show ?thesis
    using upd [OF assms] play [OF assms] nxt [OF assms] by simp
qed

text \<open>Witness: a room with playlist A and no video state; A is selected, then skipped to.\<close>

theorem no_state_no_publish_witness:
  "videoState (idle_room [itemA]) = None
   \<and> playVideoFromPlaylist 5000 ''A'' (idle_room [itemA]) = idle_room [itemA]
   \<and> writes (playNextVideo 5000 (idle_room [itemA])) = []
   \<and> videoState (playNextVideo 5000 (idle_room [itemA])) = None"
proof -
  have h: "videoState (idle_room [itemA]) = None"
    by (simp add: idle_room_def init_def)
  have m: "isInPlaylist (playlist (idle_room [itemA])) (Some ''A'')"
    by (simp add: idle_room_def isInPlaylist_def itemA_def mkItem_def)
  have w: "writes (idle_room [itemA]) = []"
    by (simp add: idle_room_def init_def)
  from no_state_no_publish [OF h, where now = 5000 and v = "''A''" and cfg = VideoPlayer_config]
    h m w
  show ?thesis
    by simp
qed

text \<open>
  C10, as stated, fails on "silently": with no video state and playlist A, the skip
  publishes nothing and yet shows the toast "Playlist restarted".
\<close>

theorem no_state_counterexample:
  "videoState (idle_room [itemA]) = None
   \<and> toasts (idle_room [itemA]) = []
   \<and> toasts (playNextVideo 5000 (idle_room [itemA]))
       = [Toast ''Playlist restarted'' ''Playing from the beginning of the playlist'' Default]
   \<and> playNextVideo 5000 (idle_room [itemA]) \<noteq> idle_room [itemA]"
proof -
  have t: "toasts (playNextVideo 5000 (idle_room [itemA]))
       = [Toast ''Playlist restarted'' ''Playing from the beginning of the playlist'' Default]"
    by (simp add: playNextVideo_def playVideoFromPlaylist_def updateRoomVideoState_unfold Let_def
          idle_room_def init_def isInPlaylist_def itemA_def mkItem_def)
  have e: "toasts (idle_room [itemA]) = []"
    by (simp add: idle_room_def init_def)
  have "playNextVideo 5000 (idle_room [itemA]) \<noteq> idle_room [itemA]"
  proof
    assume "playNextVideo 5000 (idle_room [itemA]) = idle_room [itemA]"
    then have "toasts (playNextVideo 5000 (idle_room [itemA])) = toasts (idle_room [itemA])"
      by simp
    with t e show False by simp
  qed
  with t e show ?thesis
    by (simp add: idle_room_def init_def)
qed

end
